theory Spec2Isabelle
  imports Complex_Main
begin

section \<open>Strings, JSON values and the platform\<close>

text \<open>
  The front end is TypeScript. A JavaScript string is a sequence of UTF-16 code units, and
  \<open>trim\<close>, \<open>length\<close> and \<open>slice\<close> count code units, so a string is modelled as the list
  of its code units. \<open>ascii\<close> turns an ASCII literal into such a list; the Korean messages
  of the source are written out as code units.
\<close>

type_synonym jsstring = "nat list"

definition ascii :: "string \<Rightarrow> jsstring" where
  "ascii s = map of_char s"

text \<open>
  \<open>String(n)\<close> for an integer: the decimal digits with a leading minus sign. The
  numbers that reach the template strings of the client are user and paper identifiers,
  taken as integers in the range JavaScript prints in plain decimal (below \<open>10^21\<close>).
\<close>

fun decimal :: "nat \<Rightarrow> jsstring" where
  "decimal n = (if n < 10 then [48 + n] else decimal (n div 10) @ [48 + n mod 10])"

declare decimal.simps [simp del]

definition String_of_number :: "int \<Rightarrow> jsstring" where
  "String_of_number n = (if n < 0 then 45 # decimal (nat (- n)) else decimal (nat n))"

text \<open>The values handed to \<open>JSON.stringify\<close>; an object literal keeps the order of its keys.\<close>

datatype json =
    JNull
  | JBool bool
  | JNum int
  | JStr jsstring
  | JArr "json list"
  | JObj "(jsstring \<times> json) list"

text \<open>
  What a thrown value can be: \<open>new Error(message)\<close>, the \<open>TypeError\<close> of a failed
  \<open>fetch\<close> or of a property read on \<open>null\<close>, the \<open>SyntaxError\<close> of a body that is
  not JSON, the \<open>DOMException\<close> of a storage write the browser refuses (an \<open>Error\<close>
  too), or a value that is not an \<open>Error\<close> at all.
\<close>

datatype js_error =
    Error jsstring
  | TypeError jsstring
  | SyntaxError jsstring
  | DOMException jsstring
  | NonError

fun instanceof_Error :: "js_error \<Rightarrow> bool" where
  "instanceof_Error NonError = False"
| "instanceof_Error _ = True"

fun message :: "js_error \<Rightarrow> jsstring" where
  "message (Error m) = m"
| "message (TypeError m) = m"
| "message (SyntaxError m) = m"
| "message (DOMException m) = m"
| "message NonError = []"

section \<open>The API client (lib/api.ts)\<close>

text \<open>\<open>interface ApiError\<close>; a field the body does not carry is \<open>None\<close>.\<close>

record ApiError =
  error_type :: "jsstring option"
  error_title :: "jsstring option"
  error_status :: "int option"
  detail :: "jsstring option"

text \<open>
  The second argument of \<open>fetch\<close>. \<open>headers\<close> is an object literal: an association list
  in key order, empty when the caller gives none.
\<close>

record RequestInit =
  http_method :: "jsstring option"
  headers :: "(jsstring \<times> jsstring) list"
  body :: "jsstring option"

record Request =
  url :: jsstring
  init :: RequestInit

text \<open>
  A response read through the types the client declares: \<open>response.ok\<close> is the
  constructor, and \<open>response.json()\<close> either rejects or gives the body, of the type
  parameter \<open>T\<close> of the call when the response is ok and an \<open>ApiError\<close> when it is not.
\<close>

datatype 'a Response =
    Ok_Response "js_error + 'a"
  | Failed_Response "js_error + ApiError"

fun ok :: "'a Response \<Rightarrow> bool" where
  "ok (Ok_Response _) = True"
| "ok (Failed_Response _) = False"

text \<open>
  What the module takes from its environment: the base URL
  (\<open>process.env.NEXT_PUBLIC_API_BASE_URL || ""\<close>), \<open>JSON.stringify\<close> and \<open>fetch\<close>,
  which either rejects or resolves with a response.
\<close>

record 'a platform =
  API_BASE_URL :: jsstring
  JSON_stringify :: "json \<Rightarrow> jsstring"
  fetch :: "Request \<Rightarrow> js_error + 'a Response"

text \<open>\<open>{...a, ...b}\<close> on objects: a key of \<open>b\<close> replaces the value in place, a new key is appended.\<close>

fun assign :: "jsstring \<times> jsstring \<Rightarrow> (jsstring \<times> jsstring) list \<Rightarrow> (jsstring \<times> jsstring) list" where
  "assign (k, v) [] = [(k, v)]"
| "assign (k, v) ((k', v') # rest) =
     (if k = k' then (k, v) # rest else (k', v') # assign (k, v) rest)"

definition spread :: "(jsstring \<times> jsstring) list \<Rightarrow> (jsstring \<times> jsstring) list \<Rightarrow> (jsstring \<times> jsstring) list" where
  "spread a b = fold assign b a"

definition API_REQUEST_FAILED :: jsstring where
  "API_REQUEST_FAILED =
     [0x0041, 0x0050, 0x0049, 0x0020, 0xC694, 0xCCAD, 0xC774, 0x0020, 0xC2E4, 0xD328,
      0xD588, 0xC2B5, 0xB2C8, 0xB2E4, 0x002E]"

text \<open>The request \<open>fetch\<close> is called with: the URL and the options with the merged headers.\<close>

definition fetch_input :: "'a platform \<Rightarrow> jsstring \<Rightarrow> RequestInit \<Rightarrow> Request" where
  "fetch_input p endpoint options =
     \<lparr> url = API_BASE_URL p @ endpoint,
       init = options \<lparr> headers :=
                spread [(ascii ''Content-Type'', ascii ''application/json'')] (headers options) \<rparr> \<rparr>"

text \<open>\<open>error.detail || "..."\<close>: an absent or empty \<open>detail\<close> is falsy.\<close>

definition detail_or_default :: "ApiError \<Rightarrow> jsstring" where
  "detail_or_default error =
     (case detail error of
        None \<Rightarrow> API_REQUEST_FAILED
      | Some d \<Rightarrow> if d = [] then API_REQUEST_FAILED else d)"

text \<open>\<open>ApiClient.request\<close>. \<open>Inl\<close> is the rejected promise.\<close>

definition request :: "'a platform \<Rightarrow> jsstring \<Rightarrow> RequestInit \<Rightarrow> js_error + 'a" where
  "request p endpoint options =
     (case fetch p (fetch_input p endpoint options) of
        Inl rejected \<Rightarrow> Inl rejected
      | Inr response \<Rightarrow>
          (case response of
             Failed_Response parsed \<Rightarrow>
               (case parsed of
                  Inl rejected \<Rightarrow> Inl rejected
                | Inr error \<Rightarrow> Inl (Error (detail_or_default error)))
           | Ok_Response parsed \<Rightarrow> parsed))"

definition GET :: RequestInit where
  "GET = \<lparr> http_method = None, headers = [], body = None \<rparr>"

definition POST :: "jsstring \<Rightarrow> RequestInit" where
  "POST b = \<lparr> http_method = Some (ascii ''POST''), headers = [], body = Some b \<rparr>"

definition PUT :: "jsstring \<Rightarrow> RequestInit" where
  "PUT b = \<lparr> http_method = Some (ascii ''PUT''), headers = [], body = Some b \<rparr>"

definition api_addToCalendar :: "'a platform \<Rightarrow> jsstring \<Rightarrow> js_error + 'a" where
  "api_addToCalendar p event_date =
     request p (ascii ''/add-to-calendar'')
       (POST (JSON_stringify p (JObj [(ascii ''event_date'', JStr event_date)])))"

definition api_register :: "'a platform \<Rightarrow> jsstring \<Rightarrow> jsstring \<Rightarrow> jsstring \<Rightarrow> jsstring \<Rightarrow> js_error + 'a" where
  "api_register p username password interest level =
     request p (ascii ''/auth/register'')
       (POST (JSON_stringify p (JObj
          [(ascii ''username'', JStr username), (ascii ''password'', JStr password),
           (ascii ''interest'', JStr interest), (ascii ''level'', JStr level)])))"

definition api_login :: "'a platform \<Rightarrow> jsstring \<Rightarrow> jsstring \<Rightarrow> js_error + 'a" where
  "api_login p username password =
     request p (ascii ''/auth/login'')
       (POST (JSON_stringify p (JObj
          [(ascii ''username'', JStr username), (ascii ''password'', JStr password)])))"

definition api_getAdvice :: "'a platform \<Rightarrow> int \<Rightarrow> js_error + 'a" where
  "api_getAdvice p userId =
     request p (ascii ''/'' @ String_of_number userId @ ascii ''/advice'') GET"

definition api_acceptInterestChange :: "'a platform \<Rightarrow> int \<Rightarrow> jsstring \<Rightarrow> js_error + 'a" where
  "api_acceptInterestChange p userId newInterest =
     request p (ascii ''/'' @ String_of_number userId @ ascii ''/advice/accept-interest'')
       (POST (JSON_stringify p (JObj [(ascii ''new_interest'', JStr newInterest)])))"

definition api_acceptLevelChange :: "'a platform \<Rightarrow> int \<Rightarrow> jsstring \<Rightarrow> js_error + 'a" where
  "api_acceptLevelChange p userId newLevel =
     request p (ascii ''/'' @ String_of_number userId @ ascii ''/advice/accept-level'')
       (POST (JSON_stringify p (JObj [(ascii ''new_level'', JStr newLevel)])))"

definition api_getTodayRecommendations :: "'a platform \<Rightarrow> int \<Rightarrow> js_error + 'a" where
  "api_getTodayRecommendations p userId =
     request p (ascii ''/'' @ String_of_number userId @ ascii ''/recommendations/today'') GET"

definition api_getTodayRecommendationsRelations :: "'a platform \<Rightarrow> int \<Rightarrow> js_error + 'a" where
  "api_getTodayRecommendationsRelations p userId =
     request p
       (ascii ''/'' @ String_of_number userId @ ascii ''/recommendations/today/relations1'') GET"

definition api_requestPaper :: "'a platform \<Rightarrow> int \<Rightarrow> int \<Rightarrow> jsstring \<Rightarrow> js_error + 'a" where
  "api_requestPaper p userId paperId reason =
     request p (ascii ''/'' @ String_of_number userId @ ascii ''/recommendations/request-paper1'')
       (POST (JSON_stringify p (JObj
          [(ascii ''paper_id'', JNum paperId), (ascii ''reason'', JStr reason)])))"

definition api_getPapersHistory :: "'a platform \<Rightarrow> int \<Rightarrow> js_error + 'a" where
  "api_getPapersHistory p userId =
     request p (ascii ''/'' @ String_of_number userId @ ascii ''/papers/history'') GET"

definition api_getPaperDetail :: "'a platform \<Rightarrow> int \<Rightarrow> int \<Rightarrow> js_error + 'a" where
  "api_getPaperDetail p paperId userId =
     request p
       (ascii ''/papers/'' @ String_of_number paperId @ ascii ''/'' @ String_of_number userId) GET"

definition api_updateProfile :: "'a platform \<Rightarrow> int \<Rightarrow> jsstring \<Rightarrow> jsstring \<Rightarrow> js_error + 'a" where
  "api_updateProfile p userId interest level =
     request p (ascii ''/users/'' @ String_of_number userId)
       (PUT (JSON_stringify p (JObj
          [(ascii ''interest'', JStr interest), (ascii ''level'', JStr level)])))"

text \<open>\<open>pdfUrl\<close> and \<open>aiSummary\<close> are \<open>string | null\<close>.\<close>

definition nullable :: "jsstring option \<Rightarrow> json" where
  "nullable s = (case s of None \<Rightarrow> JNull | Some t \<Rightarrow> JStr t)"

definition api_sharePaperToKakao ::
  "'a platform \<Rightarrow> int \<Rightarrow> jsstring \<Rightarrow> jsstring option \<Rightarrow> jsstring option \<Rightarrow> js_error + 'a" where
  "api_sharePaperToKakao p paperId paperTitle pdfUrl aiSummary =
     request p (ascii ''/papers/'' @ String_of_number paperId @ ascii ''/share-kakao'')
       (POST (JSON_stringify p (JObj
          [(ascii ''paper_title'', JStr paperTitle), (ascii ''pdf_url'', nullable pdfUrl),
           (ascii ''ai_summary'', nullable aiSummary)])))"

text \<open>The body carries the literal \<open>user_id: 3\<close>; the parameter \<open>userId\<close> is not used.\<close>

definition api_addPaperByArxivId :: "'a platform \<Rightarrow> jsstring \<Rightarrow> int \<Rightarrow> js_error + 'a" where
  "api_addPaperByArxivId p arxivId userId =
     request p (ascii ''/papers/add'')
       \<lparr> http_method = Some (ascii ''POST''),
         headers = [(ascii ''Content-Type'', ascii ''application/json'')],
         body = Some (JSON_stringify p (JObj
           [(ascii ''arxiv_id'', JStr arxivId), (ascii ''user_id'', JNum 3)])) \<rparr>"

definition api_chatWithPaper :: "'a platform \<Rightarrow> int \<Rightarrow> int \<Rightarrow> jsstring \<Rightarrow> js_error + 'a" where
  "api_chatWithPaper p paperId userId question =
     request p (ascii ''/papers/'' @ String_of_number paperId @ ascii ''/chat'')
       (POST (JSON_stringify p (JObj
          [(ascii ''user_id'', JNum userId), (ascii ''question'', JStr question)])))"

text \<open>One constructor per endpoint method of the client, and the call it stands for.\<close>

datatype ApiCall =
    AddToCalendar jsstring
  | Register jsstring jsstring jsstring jsstring
  | Login jsstring jsstring
  | GetAdvice int
  | AcceptInterestChange int jsstring
  | AcceptLevelChange int jsstring
  | GetTodayRecommendations int
  | GetTodayRecommendationsRelations int
  | RequestPaper int int jsstring
  | GetPapersHistory int
  | GetPaperDetail int int
  | UpdateProfile int jsstring jsstring
  | SharePaperToKakao int jsstring "jsstring option" "jsstring option"
  | AddPaperByArxivId jsstring int
  | ChatWithPaper int int jsstring

fun invoke :: "'a platform \<Rightarrow> ApiCall \<Rightarrow> js_error + 'a" where
  "invoke p (AddToCalendar d) = api_addToCalendar p d"
| "invoke p (Register u pw i l) = api_register p u pw i l"
| "invoke p (Login u pw) = api_login p u pw"
| "invoke p (GetAdvice uid) = api_getAdvice p uid"
| "invoke p (AcceptInterestChange uid i) = api_acceptInterestChange p uid i"
| "invoke p (AcceptLevelChange uid l) = api_acceptLevelChange p uid l"
| "invoke p (GetTodayRecommendations uid) = api_getTodayRecommendations p uid"
| "invoke p (GetTodayRecommendationsRelations uid) = api_getTodayRecommendationsRelations p uid"
| "invoke p (RequestPaper uid pid r) = api_requestPaper p uid pid r"
| "invoke p (GetPapersHistory uid) = api_getPapersHistory p uid"
| "invoke p (GetPaperDetail pid uid) = api_getPaperDetail p pid uid"
| "invoke p (UpdateProfile uid i l) = api_updateProfile p uid i l"
| "invoke p (SharePaperToKakao pid t u s) = api_sharePaperToKakao p pid t u s"
| "invoke p (AddPaperByArxivId a uid) = api_addPaperByArxivId p a uid"
| "invoke p (ChatWithPaper pid uid q) = api_chatWithPaper p pid uid q"

section \<open>The session store (lib/auth-context.tsx)\<close>

record User =
  User_id :: int
  User_username :: jsstring
  User_interest :: jsstring
  User_level :: jsstring

text \<open>The bodies of \<open>/auth/login\<close> and \<open>/auth/register\<close>.\<close>

record AuthResponse =
  user_id :: int
  username :: jsstring
  interest :: jsstring
  level :: jsstring

record RegisterResponse = AuthResponse +
  created_at :: jsstring

record ProfileResponse =
  profile_message :: jsstring
  profile_user :: AuthResponse

text \<open>
  The object handed to \<open>JSON.stringify\<close> for a user: the keys \<open>id\<close>, \<open>username\<close>,
  \<open>interest\<close>, \<open>level\<close>, in the order of the object literal (a spread
  \<open>{...user, interest}\<close> keeps that order).
\<close>

definition User_json :: "User \<Rightarrow> json" where
  "User_json u = JObj
     [(ascii ''id'', JNum (User_id u)), (ascii ''username'', JStr (User_username u)),
      (ascii ''interest'', JStr (User_interest u)), (ascii ''level'', JStr (User_level u))]"

text \<open>
  The state the provider works on: the React state \<open>user\<close>, the browser's
  \<open>localStorage\<close>, and what was shown by \<open>alert\<close> and logged by \<open>console.error\<close>.
\<close>

record session =
  user :: "User option"
  localStorage :: "jsstring \<rightharpoonup> jsstring"
  alerts :: "jsstring list"
  console :: "(jsstring \<times> js_error) list"

definition USER_KEY :: jsstring where
  "USER_KEY = ascii ''user''"

definition SIGNUP_FAILED :: jsstring where
  "SIGNUP_FAILED =
     [0xD68C, 0xC6D0, 0xAC00, 0xC785, 0xC5D0, 0x0020, 0xC2E4, 0xD328, 0xD588, 0xC2B5,
      0xB2C8, 0xB2E4, 0x002E]"

definition LOGIN_FAILED :: jsstring where
  "LOGIN_FAILED =
     [0xB85C, 0xADF8, 0xC778, 0xC5D0, 0x0020, 0xC2E4, 0xD328, 0xD588, 0xC2B5, 0xB2C8,
      0xB2E4, 0x002E]"

definition PROFILE_UPDATE_FAILED :: jsstring where
  "PROFILE_UPDATE_FAILED =
     [0xD504, 0xB85C, 0xD544, 0x0020, 0xC5C5, 0xB370, 0xC774, 0xD2B8, 0xC5D0, 0x0020,
      0xC2E4, 0xD328, 0xD588, 0xC2B5, 0xB2C8, 0xB2E4, 0x002E]"

text \<open>
  \<open>localStorage.setItem\<close> either stores the value or throws and stores nothing (a full
  or disabled storage raises \<open>QuotaExceededError\<close>). Which of the two is the browser's
  decision, given as \<open>quota\<close>: whether this storage takes this value under this key.
\<close>

definition QUOTA_EXCEEDED :: jsstring where
  "QUOTA_EXCEEDED = ascii ''QuotaExceededError''"

definition setItem ::
  "((jsstring \<rightharpoonup> jsstring) \<Rightarrow> jsstring \<Rightarrow> jsstring \<Rightarrow> bool) \<Rightarrow> jsstring \<Rightarrow> jsstring
     \<Rightarrow> (jsstring \<rightharpoonup> jsstring) \<Rightarrow> js_error + (jsstring \<rightharpoonup> jsstring)" where
  "setItem quota key v storage =
     (if quota storage key v then Inr (storage(key \<mapsto> v))
      else Inl (DOMException QUOTA_EXCEEDED))"

text \<open>\<open>useState<User | null>(null)\<close>, over the storage the browser holds at mount.\<close>

definition AuthProvider_init :: "(jsstring \<rightharpoonup> jsstring) \<Rightarrow> session" where
  "AuthProvider_init storage =
     \<lparr> user = None, localStorage = storage, alerts = [], console = [] \<rparr>"

text \<open>
  The mount effect. \<open>JSON.parse\<close> is the platform's, read at the type of the state
  (\<open>User | null\<close>); when it throws, the effect throws. An absent entry and the empty
  string are both falsy.
\<close>

definition AuthProvider_mount ::
  "(jsstring \<Rightarrow> js_error + User option) \<Rightarrow> session \<Rightarrow> js_error + session" where
  "AuthProvider_mount JSON_parse st =
     (case localStorage st USER_KEY of
        None \<Rightarrow> Inr st
      | Some storedUser \<Rightarrow>
          if storedUser = [] then Inr st
          else (case JSON_parse storedUser of
                  Inl thrown \<Rightarrow> Inl thrown
                | Inr parsed \<Rightarrow> Inr (st \<lparr> user := parsed \<rparr>)))"

text \<open>\<open>catch (error)\<close> of the three asynchronous operations: log, alert, nothing else.\<close>

definition report_failure :: "jsstring \<Rightarrow> jsstring \<Rightarrow> js_error \<Rightarrow> session \<Rightarrow> session" where
  "report_failure label fallback error st =
     st \<lparr> console := console st @ [(label, error)],
          alerts := alerts st @ [if instanceof_Error error then message error else fallback] \<rparr>"

text \<open>
  \<open>setUser(u); localStorage.setItem("user", JSON.stringify(u))\<close>, the pair of statements
  every writing operation ends with. The state is set first; when the write throws, the
  state stays set, the storage stays as it was, and what was thrown is returned.
\<close>

definition store_user ::
  "((jsstring \<rightharpoonup> jsstring) \<Rightarrow> jsstring \<Rightarrow> jsstring \<Rightarrow> bool) \<Rightarrow> (json \<Rightarrow> jsstring) \<Rightarrow> User
     \<Rightarrow> session \<Rightarrow> js_error option \<times> session" where
  "store_user quota stringify u st =
     (let st1 = st \<lparr> user := Some u \<rparr>
      in case setItem quota USER_KEY (stringify (User_json u)) (localStorage st1) of
           Inl thrown \<Rightarrow> (Some thrown, st1)
         | Inr storage \<Rightarrow> (None, st1 \<lparr> localStorage := storage \<rparr>))"

text \<open>
  \<open>signup\<close> and \<open>login\<close>. The \<open>try\<close> encloses the API call, \<open>setUser\<close> and the storage
  write, so the \<open>catch\<close> also takes what the write throws.
\<close>

definition signup ::
  "((jsstring \<rightharpoonup> jsstring) \<Rightarrow> jsstring \<Rightarrow> jsstring \<Rightarrow> bool) \<Rightarrow> RegisterResponse platform
     \<Rightarrow> jsstring \<Rightarrow> jsstring \<Rightarrow> jsstring \<Rightarrow> jsstring \<Rightarrow> session \<Rightarrow> bool \<times> session" where
  "signup quota p usern password intr lvl st =
     (case api_register p usern password intr lvl of
        Inr response \<Rightarrow>
          (let newUser = \<lparr> User_id = user_id response, User_username = username response,
                           User_interest = interest response, User_level = level response \<rparr>
           in case store_user quota (JSON_stringify p) newUser st of
                (None, st') \<Rightarrow> (True, st')
              | (Some error, st') \<Rightarrow>
                  (False, report_failure (ascii ''Signup failed:'') SIGNUP_FAILED error st'))
      | Inl error \<Rightarrow> (False, report_failure (ascii ''Signup failed:'') SIGNUP_FAILED error st))"

definition login ::
  "((jsstring \<rightharpoonup> jsstring) \<Rightarrow> jsstring \<Rightarrow> jsstring \<Rightarrow> bool) \<Rightarrow> AuthResponse platform
     \<Rightarrow> jsstring \<Rightarrow> jsstring \<Rightarrow> session \<Rightarrow> bool \<times> session" where
  "login quota p usern password st =
     (case api_login p usern password of
        Inr response \<Rightarrow>
          (let loggedInUser = \<lparr> User_id = user_id response, User_username = username response,
                                User_interest = interest response, User_level = level response \<rparr>
           in case store_user quota (JSON_stringify p) loggedInUser st of
                (None, st') \<Rightarrow> (True, st')
              | (Some error, st') \<Rightarrow>
                  (False, report_failure (ascii ''Login failed:'') LOGIN_FAILED error st'))
      | Inl error \<Rightarrow> (False, report_failure (ascii ''Login failed:'') LOGIN_FAILED error st))"

definition logout :: "session \<Rightarrow> session" where
  "logout st = st \<lparr> user := None, localStorage := (localStorage st)(USER_KEY := None) \<rparr>"

text \<open>
  The three update operations are closures over the \<open>user\<close> of the render that created
  them: the argument \<open>usr\<close>. Called from the current render it is the state's user; an
  operation that resumes after an \<open>await\<close>, or is called from an older render, still
  has the user of its own render. \<open>updateInterest\<close> and \<open>updateLevel\<close> have no
  \<open>try\<close>: what the write throws leaves the function and is returned here.
\<close>

definition updateInterest ::
  "((jsstring \<rightharpoonup> jsstring) \<Rightarrow> jsstring \<Rightarrow> jsstring \<Rightarrow> bool) \<Rightarrow> (json \<Rightarrow> jsstring) \<Rightarrow> User option
     \<Rightarrow> jsstring \<Rightarrow> session \<Rightarrow> js_error option \<times> session" where
  "updateInterest quota stringify usr intr st =
     (case usr of
        None \<Rightarrow> (None, st)
      | Some u \<Rightarrow> store_user quota stringify (u \<lparr> User_interest := intr \<rparr>) st)"

definition updateLevel ::
  "((jsstring \<rightharpoonup> jsstring) \<Rightarrow> jsstring \<Rightarrow> jsstring \<Rightarrow> bool) \<Rightarrow> (json \<Rightarrow> jsstring) \<Rightarrow> User option
     \<Rightarrow> jsstring \<Rightarrow> session \<Rightarrow> js_error option \<times> session" where
  "updateLevel quota stringify usr lvl st =
     (case usr of
        None \<Rightarrow> (None, st)
      | Some u \<Rightarrow> store_user quota stringify (u \<lparr> User_level := lvl \<rparr>) st)"

text \<open>
  \<open>updateProfile\<close>. The response of the \<open>PUT\<close> is bound and never read, so its type is
  left open. The \<open>try\<close> encloses the storage write as in \<open>login\<close>.
\<close>

definition updateProfile ::
  "((jsstring \<rightharpoonup> jsstring) \<Rightarrow> jsstring \<Rightarrow> jsstring \<Rightarrow> bool) \<Rightarrow> 'a platform \<Rightarrow> User option
     \<Rightarrow> jsstring \<Rightarrow> jsstring \<Rightarrow> session \<Rightarrow> bool \<times> session" where
  "updateProfile quota p usr intr lvl st =
     (case usr of
        None \<Rightarrow> (False, st)
      | Some u \<Rightarrow>
          (case api_updateProfile p (User_id u) intr lvl of
             Inr response \<Rightarrow>
               (let updatedUser = \<lparr> User_id = User_id u, User_username = User_username u,
                                    User_interest = intr, User_level = lvl \<rparr>
                in case store_user quota (JSON_stringify p) updatedUser st of
                     (None, st') \<Rightarrow> (True, st')
                   | (Some error, st') \<Rightarrow>
                       (False,
                        report_failure (ascii ''Profile update failed:'') PROFILE_UPDATE_FAILED
                          error st'))
           | Inl error \<Rightarrow>
               (False,
                report_failure (ascii ''Profile update failed:'') PROFILE_UPDATE_FAILED error st)))"

text \<open>
  The store over time: what the user or a page asks of it, together with the answer the
  network gives during that operation and, for the update operations, the user of the
  render the operation comes from (any user: the current one, or an older one). A reload
  of the page mounts the provider anew over the storage as it stands: the state starts at
  \<open>null\<close> and the mount effect runs; when the effect throws, the state stays there.
\<close>

datatype store_event =
    Signup "Request \<Rightarrow> js_error + RegisterResponse Response" jsstring jsstring jsstring jsstring
  | LoginEv "Request \<Rightarrow> js_error + AuthResponse Response" jsstring jsstring
  | Logout
  | UpdateInterest "User option" jsstring
  | UpdateLevel "User option" jsstring
  | UpdateProfileEv "Request \<Rightarrow> js_error + ProfileResponse Response" "User option" jsstring jsstring
  | Reload

fun store_step ::
  "jsstring \<Rightarrow> (json \<Rightarrow> jsstring) \<Rightarrow> (jsstring \<Rightarrow> js_error + User option)
     \<Rightarrow> ((jsstring \<rightharpoonup> jsstring) \<Rightarrow> jsstring \<Rightarrow> jsstring \<Rightarrow> bool)
     \<Rightarrow> store_event \<Rightarrow> session \<Rightarrow> session" where
  "store_step base sfy JSON_parse quota (Signup net u pw i l) st =
     snd (signup quota \<lparr> API_BASE_URL = base, JSON_stringify = sfy, fetch = net \<rparr> u pw i l st)"
| "store_step base sfy JSON_parse quota (LoginEv net u pw) st =
     snd (login quota \<lparr> API_BASE_URL = base, JSON_stringify = sfy, fetch = net \<rparr> u pw st)"
| "store_step base sfy JSON_parse quota Logout st = logout st"
| "store_step base sfy JSON_parse quota (UpdateInterest usr i) st =
     snd (updateInterest quota sfy usr i st)"
| "store_step base sfy JSON_parse quota (UpdateLevel usr l) st =
     snd (updateLevel quota sfy usr l st)"
| "store_step base sfy JSON_parse quota (UpdateProfileEv net usr i l) st =
     snd (updateProfile quota \<lparr> API_BASE_URL = base, JSON_stringify = sfy, fetch = net \<rparr>
            usr i l st)"
| "store_step base sfy JSON_parse quota Reload st =
     (case AuthProvider_mount JSON_parse (AuthProvider_init (localStorage st)) of
        Inr st' \<Rightarrow> st'
      | Inl thrown \<Rightarrow> AuthProvider_init (localStorage st))"

definition store_run ::
  "jsstring \<Rightarrow> (json \<Rightarrow> jsstring) \<Rightarrow> (jsstring \<Rightarrow> js_error + User option)
     \<Rightarrow> ((jsstring \<rightharpoonup> jsstring) \<Rightarrow> jsstring \<Rightarrow> jsstring \<Rightarrow> bool)
     \<Rightarrow> store_event list \<Rightarrow> session \<Rightarrow> session" where
  "store_run base sfy JSON_parse quota evs st = fold (store_step base sfy JSON_parse quota) evs st"

text \<open>
  The storage entry agrees with the state: absent when there is no user, the
  serialization of the user otherwise.
\<close>

definition consistent :: "(json \<Rightarrow> jsstring) \<Rightarrow> session \<Rightarrow> bool" where
  "consistent sfy st =
     (case user st of
        None \<Rightarrow> localStorage st USER_KEY = None
      | Some u \<Rightarrow> localStorage st USER_KEY = Some (sfy (User_json u)))"

section \<open>The graph renderer (components/paper-graph.tsx)\<close>

datatype NodeType = recommended | common_reference

record Node =
  Node_id :: int
  Node_title :: jsstring
  Node_type :: NodeType

text \<open>\<open>interface Edge\<close>; its \<open>type\<close> has the single value \<open>"cites"\<close> and is never read.\<close>

record Edge =
  source :: int
  target :: int
  is_influential :: bool

text \<open>\<open>{...node, x, y}\<close>. The coordinates are JavaScript numbers; a half can occur.\<close>

record PositionedNode = Node +
  pos_x :: rat
  pos_y :: rat

datatype svg =
    Line rat rat rat rat rat jsstring
  | Circle rat rat rat jsstring
  | Rect rat rat rat rat rat rat jsstring
  | Text rat rat jsstring jsstring
  | Group int "svg list"

definition place :: "Node \<Rightarrow> rat \<Rightarrow> rat \<Rightarrow> PositionedNode" where
  "place node px py =
     \<lparr> Node_id = Node_id node, Node_title = Node_title node, Node_type = Node_type node,
       pos_x = px, pos_y = py \<rparr>"

definition recommendedNodes :: "Node list \<Rightarrow> Node list" where
  "recommendedNodes nodes = filter (\<lambda>n. Node_type n = recommended) nodes"

definition commonRefNodes :: "Node list \<Rightarrow> Node list" where
  "commonRefNodes nodes = filter (\<lambda>n. Node_type n = common_reference) nodes"

definition recommendedPositions :: "Node list \<Rightarrow> PositionedNode list" where
  "recommendedPositions nodes =
     map (\<lambda>(idx, node). place node (100 + of_nat idx * 120) 150)
       (enumerate 0 (recommendedNodes nodes))"

definition commonRefPositions :: "Node list \<Rightarrow> PositionedNode list" where
  "commonRefPositions nodes =
     map (\<lambda>(idx, node). place node 200 50) (enumerate 0 (commonRefNodes nodes))"

definition allNodePositions :: "Node list \<Rightarrow> PositionedNode list" where
  "allNodePositions nodes = recommendedPositions nodes @ commonRefPositions nodes"

text \<open>\<open>Array.prototype.find\<close>: the first match, or \<open>undefined\<close>.\<close>

definition getNodePosition :: "Node list \<Rightarrow> int \<Rightarrow> PositionedNode option" where
  "getNodePosition nodes i = find (\<lambda>n. Node_id n = i) (allNodePositions nodes)"

text \<open>The callback of \<open>edges.map\<close>: \<open>null\<close> when an end is not found, a line otherwise.\<close>

definition renderEdge :: "Node list \<Rightarrow> Edge \<Rightarrow> svg option" where
  "renderEdge nodes edge =
     (case getNodePosition nodes (source edge) of
        None \<Rightarrow> None
      | Some sourcePos \<Rightarrow>
          (case getNodePosition nodes (target edge) of
             None \<Rightarrow> None
           | Some targetPos \<Rightarrow>
               Some (Line (pos_x sourcePos) (pos_y sourcePos) (pos_x targetPos) (pos_y targetPos)
                      (if is_influential edge then 3 else 2)
                      (if is_influential edge then ascii ''text-primary/60''
                       else ascii ''text-primary/40''))))"

definition renderNode :: "PositionedNode \<Rightarrow> svg" where
  "renderNode node =
     Group (Node_id node)
       (if Node_type node = recommended then
          [Rect (pos_x node - 40) (pos_y node - 20) 80 40 10 10 (ascii ''text-accent''),
           Text (pos_x node) (pos_y node + 5) (ascii ''text-xs font-bold fill-accent-foreground'')
             (if length (Node_title node) > 5 then take 5 (Node_title node) @ ascii ''...''
              else Node_title node)]
        else
          [Rect (pos_x node - (of_nat (length (Node_title node)) * 7 + 10) / 2) (pos_y node - 20)
             (of_nat (length (Node_title node)) * 7 + 10) 40 10 10 (ascii ''text-primary''),
           Text (pos_x node) (pos_y node + 5) (ascii ''text-xs font-bold fill-primary-foreground'')
             (Node_title node)])"

text \<open>
  The default export: the children of the \<open>svg\<close> element, the edges first (one entry
  per edge, in order) and the nodes after them. The legend beside it is fixed markup.
\<close>

definition PaperGraph :: "Node list \<Rightarrow> Edge list \<Rightarrow> svg option list \<times> svg list" where
  "PaperGraph nodes edges =
     (map (renderEdge nodes) edges, map renderNode (allNodePositions nodes))"

text \<open>The named export of the earlier version of the file: a fixed drawing, no props.\<close>

definition PaperGraph_static :: "svg list" where
  "PaperGraph_static =
     [Line 100 100 200 50 2 (ascii ''text-primary/40''),
      Line 100 100 200 150 2 (ascii ''text-primary/40''),
      Line 300 100 200 50 2 (ascii ''text-primary/40''),
      Line 300 100 200 150 2 (ascii ''text-primary/40''),
      Circle 200 50 20 (ascii ''text-primary''),
      Circle 200 150 20 (ascii ''text-secondary''),
      Circle 100 100 25 (ascii ''text-accent''),
      Circle 300 100 25 (ascii ''text-accent''),
      Text 200 55 (ascii ''fill-primary-foreground text-xs font-bold'') (ascii ''A''),
      Text 200 155 (ascii ''fill-secondary-foreground text-xs font-bold'') (ascii ''B''),
      Text 100 105 (ascii ''fill-accent-foreground text-xs font-bold'') (ascii ''C''),
      Text 300 105 (ascii ''fill-accent-foreground text-xs font-bold'') (ascii ''D'')]"


section \<open>Page views\<close>

text \<open>
  A page component is modelled by its state, its fetch functions, its mount effect and
  its render function. Around the state, a page records what it did to the outside:
  the targets of \<open>router.push\<close>, the API-client methods it invoked, in order, and
  what it logged with \<open>console.error\<close>.
\<close>

record 's page =
  state :: 's
  pushed :: "jsstring list"
  called :: "ApiCall list"
  logged :: "(jsstring \<times> js_error) list"

definition mounted :: "'s \<Rightarrow> 's page" where
  "mounted s = \<lparr> state = s, pushed = [], called = [], logged = [] \<rparr>"

definition call_api :: "'a platform \<Rightarrow> ApiCall \<Rightarrow> 's page \<Rightarrow> (js_error + 'a) \<times> 's page" where
  "call_api p c pg = (invoke p c, pg \<lparr> called := called pg @ [c] \<rparr>)"


definition console_error :: "jsstring \<Rightarrow> js_error \<Rightarrow> 's page \<Rightarrow> 's page" where
  "console_error label e pg = pg \<lparr> logged := logged pg @ [(label, e)] \<rparr>"

text \<open>\<open>{error && ...}\<close> on a \<open>string | null\<close>: \<open>null\<close> and the empty string are falsy.\<close>

definition truthy :: "jsstring option \<Rightarrow> bool" where
  "truthy s = (case s of None \<Rightarrow> False | Some t \<Rightarrow> t \<noteq> [])"

text \<open>
  \<open>String.prototype.trim\<close> removes the white space and line terminators of ECMAScript
  from both ends.
\<close>

definition is_whitespace :: "nat \<Rightarrow> bool" where
  "is_whitespace c =
     (c = 0x0009 \<or> c = 0x000A \<or> c = 0x000B \<or> c = 0x000C \<or> c = 0x000D \<or> c = 0x0020
      \<or> c = 0x00A0 \<or> c = 0x1680 \<or> (0x2000 \<le> c \<and> c \<le> 0x200A) \<or> c = 0x2028
      \<or> c = 0x2029 \<or> c = 0x202F \<or> c = 0x205F \<or> c = 0x3000 \<or> c = 0xFEFF)"

definition trim :: "jsstring \<Rightarrow> jsstring" where
  "trim s = rev (dropWhile is_whitespace (rev (dropWhile is_whitespace s)))"

text \<open>
  What a render returns is kept as the list of its parts, in document order. A control
  (a button or an input) carries the handler it is bound to, \<open>on_h\<close> for the handler
  \<open>h\<close> of the source, and whether it is disabled.
\<close>

datatype handler =
    goto jsstring
  | router_back
  | on_handleAddToCalendar
  | on_setArxivId
  | on_handleAddPaper
  | on_handleChangeInterest
  | on_handleChangeLevel
  | on_handleRequestPaper
  | on_setInput
  | on_handleSend
  | on_setInterestInput
  | on_setDifficulty
  | on_handleSave
  | on_handleLogout

datatype AdviceType = interest_change | level_change | none

record Advice =
  advice_type :: AdviceType
  current_interest :: "jsstring option"
  suggested_interest :: "jsstring option"
  current_level :: "jsstring option"
  suggested_level :: "jsstring option"
  reason :: "jsstring option"
  advice_message :: "jsstring option"

record PaperItem =
  paper_id :: int
  title :: jsstring
  authors :: "jsstring list"
  recommended_at :: jsstring
  is_user_requested :: bool

record PapersResponse =
  papers :: "PaperItem list"
  total_count :: int

record TodayResponse = PapersResponse +
  date :: jsstring

record ChatEntry =
  chat_id :: int
  question :: jsstring
  answer :: jsstring
  chat_created_at :: jsstring

record ChatResponse = ChatEntry +
  chat_paper_id :: int
  previous_chats :: "(jsstring \<times> jsstring) list"

record Summary =
  summary_level :: jsstring
  summary_content :: jsstring

record Metadata =
  citation_count :: int
  citation_velocity :: rat
  influential_citation_count :: int
  metadata_keywords :: "jsstring list"

record PaperDetail =
  Detail_paper_id :: int
  Detail_title :: jsstring
  Detail_authors :: "jsstring list"
  Detail_published_date :: jsstring
  Detail_source :: jsstring
  Detail_arxiv_id :: jsstring
  Detail_pdf_url :: jsstring
  Detail_abstract :: jsstring
  Detail_summary :: Summary
  Detail_metadata :: Metadata
  Detail_chat_history :: "ChatEntry list"

datatype Role = user_role | assistant

record Message =
  role :: Role
  content :: jsstring

datatype element =
    NavigationHeader
  | LoadingNotice
  | EmptyNotice
  | ErrorNotice jsstring
  | Control handler bool
  | AdviceCard Advice
  | PaperCard nat PaperItem jsstring jsstring
  | HistoryCard PaperItem jsstring jsstring
  | Graph "svg list"
  | PaperView PaperDetail
  | PaperInfo jsstring "jsstring list"
  | Bubble Message
  | TypingIndicator
  | AccountInfo jsstring

definition level_label :: "jsstring \<Rightarrow> jsstring" where
  "level_label l =
     (if l = ascii ''beginner'' then [0xCD08, 0xAE09]
      else if l = ascii ''intermediate'' then [0xC911, 0xAE09]
      else [0xACE0, 0xAE09])"

subsection \<open>Home\<close>







subsection \<open>Recommendations\<close>

record RecsState =
  Recs_papers :: "PaperItem list"
  Recs_isLoading :: bool
  Recs_error :: "jsstring option"

definition RecommendationsPage_init :: RecsState where
  "RecommendationsPage_init = \<lparr> Recs_papers = [], Recs_isLoading = True, Recs_error = None \<rparr>"

definition RECOMMENDATIONS_FAILED :: jsstring where
  "RECOMMENDATIONS_FAILED =
     [0xCD94, 0xCC9C, 0x0020, 0xB17C, 0xBB38, 0xC744, 0x0020, 0xBD88, 0xB7EC, 0xC624,
      0xB294, 0xB370, 0x0020, 0xC2E4, 0xD328, 0xD588, 0xC2B5, 0xB2C8, 0xB2E4, 0x002E]"

text \<open>\<open>slice(0, 3)\<close> is the first three elements, or all of them when there are fewer.\<close>

definition fetchRecommendations ::
  "TodayResponse platform \<Rightarrow> User option \<Rightarrow> RecsState page \<Rightarrow> RecsState page" where
  "fetchRecommendations p usr pg =
     (case usr of
        None \<Rightarrow> pg
      | Some u \<Rightarrow>
          (let pg1 = pg \<lparr> state := (state pg) \<lparr> Recs_isLoading := True, Recs_error := None \<rparr> \<rparr>;
               (result, pg2) = call_api p (GetTodayRecommendations (User_id u)) pg1;
               pg3 = (case result of
                        Inr data \<Rightarrow>
                          pg2 \<lparr> state := (state pg2) \<lparr> Recs_papers := take 3 (papers data) \<rparr> \<rparr>
                      | Inl e \<Rightarrow>
                          (console_error (ascii ''Failed to fetch recommendations:'') e pg2)
                            \<lparr> state := (state pg2) \<lparr> Recs_error := Some RECOMMENDATIONS_FAILED \<rparr> \<rparr>)
           in pg3 \<lparr> state := (state pg3) \<lparr> Recs_isLoading := False \<rparr> \<rparr>))"


definition todayPapers :: "RecsState \<Rightarrow> PaperItem list" where
  "todayPapers s = take 3 (Recs_papers s)"

definition RecommendationsPage_render :: "User option \<Rightarrow> RecsState \<Rightarrow> element list option" where
  "RecommendationsPage_render usr s =
     (case usr of
        None \<Rightarrow> None
      | Some u \<Rightarrow> Some
          ([NavigationHeader, Control (goto (ascii ''/'')) False]
           @ (if Recs_isLoading s then [LoadingNotice] else [])
           @ (case Recs_error s of
                None \<Rightarrow> []
              | Some e \<Rightarrow> if e \<noteq> [] then [ErrorNotice e] else [])
           @ (if \<not> Recs_isLoading s \<and> \<not> truthy (Recs_error s) then
                map (\<lambda>(index, paper).
                       PaperCard (index + 1) paper (User_interest u) (level_label (User_level u)))
                  (enumerate 0 (todayPapers s))
                @ [Graph PaperGraph_static, Control on_handleRequestPaper False]
              else [])))"

definition REQUEST_ADDED :: jsstring where
  "REQUEST_ADDED =
     [0xB0B4, 0xC77C, 0x0020, 0xB17C, 0xBB38, 0x0020, 0xCD94, 0xCC9C, 0x0020, 0xBAA9,
      0xB85D, 0xC5D0, 0x0020, 0xCD94, 0xAC00, 0xB418, 0xC5C8, 0xC2B5, 0xB2C8, 0xB2E4,
      0x002E]"

definition REQUEST_FAILED :: jsstring where
  "REQUEST_FAILED =
     [0xB17C, 0xBB38, 0x0020, 0xC694, 0xCCAD, 0xC5D0, 0x0020, 0xC2E4, 0xD328, 0xD588,
      0xC2B5, 0xB2C8, 0xB2E4, 0x002E]"

text \<open>The click handler of the request button; the text it shows with \<open>alert\<close> is returned.\<close>

definition handleRequestPaper ::
  "'a platform \<Rightarrow> User option \<Rightarrow> RecsState page \<Rightarrow> jsstring option \<times> RecsState page" where
  "handleRequestPaper p usr pg =
     (case usr of
        None \<Rightarrow> (None, pg)
      | Some u \<Rightarrow>
          (let (result, pg1) =
                 call_api p (RequestPaper (User_id u) 50 (ascii ''common_reference'')) pg
           in case result of
                Inr response \<Rightarrow> (Some REQUEST_ADDED, pg1)
              | Inl e \<Rightarrow>
                  (Some REQUEST_FAILED,
                   console_error (ascii ''Failed to request paper:'') e pg1)))"

subsection \<open>History\<close>







subsection \<open>Paper detail\<close>








subsection \<open>Chat\<close>

record ChatState =
  Chat_paperTitle :: jsstring
  Chat_paperKeywords :: "jsstring list"
  Chat_messages :: "Message list"
  Chat_input :: jsstring
  Chat_isLoading :: bool
  Chat_isFetchingPaper :: bool
  Chat_error :: "jsstring option"

definition ChatPage_init :: ChatState where
  "ChatPage_init =
     \<lparr> Chat_paperTitle = [], Chat_paperKeywords = [], Chat_messages = [], Chat_input = [],
       Chat_isLoading = False, Chat_isFetchingPaper = True, Chat_error = None \<rparr>"



definition SEND_FAILED :: jsstring where
  "SEND_FAILED =
     [0xC8C4, 0xC1A1, 0xD569, 0xB2C8, 0xB2E4, 0x002E, 0x0020, 0xBA54, 0xC2DC, 0xC9C0,
      0x0020, 0xC804, 0xC1A1, 0xC5D0, 0x0020, 0xC2E4, 0xD328, 0xD588, 0xC2B5, 0xB2C8,
      0xB2E4, 0x002E, 0x0020, 0xB2E4, 0xC2DC, 0x0020, 0xC2DC, 0xB3C4, 0xD574, 0xC8FC,
      0xC138, 0xC694, 0x002E]"

text \<open>The message of the \<open>TypeError\<close> raised by \<open>user.id\<close> when \<open>user\<close> is \<open>null\<close>.\<close>

definition NULL_ID_READ :: jsstring where
  "NULL_ID_READ =
     [0x0043, 0x0061, 0x006E, 0x006E, 0x006F, 0x0074, 0x0020, 0x0072, 0x0065, 0x0061,
      0x0064, 0x0020, 0x0070, 0x0072, 0x006F, 0x0070, 0x0065, 0x0072, 0x0074, 0x0069,
      0x0065, 0x0073, 0x0020, 0x006F, 0x0066, 0x0020, 0x006E, 0x0075, 0x006C, 0x006C,
      0x0020, 0x0028, 0x0072, 0x0065, 0x0061, 0x0064, 0x0069, 0x006E, 0x0067, 0x0020,
      0x0027, 0x0069, 0x0064, 0x0027, 0x0029]"




text \<open>
  An asynchronous handler either returns at once or suspends at its \<open>await\<close>: the page
  as it stands when the API method is invoked, and the page once the handler has finished.
\<close>

datatype 'a run = Returned 'a | Awaited 'a 'a

text \<open>
  \<open>handleSend\<close>. The argument \<open>user.id\<close> is evaluated inside the \<open>try\<close>; with no user
  it throws before the client is called, and the \<open>catch\<close> takes over.
\<close>

definition handleSend ::
  "ChatResponse platform \<Rightarrow> int \<Rightarrow> User option \<Rightarrow> ChatState page \<Rightarrow> ChatState page run" where
  "handleSend p paperId usr pg =
     (if trim (Chat_input (state pg)) = [] \<or> Chat_isLoading (state pg) then Returned pg
      else
        (let userMessage = \<lparr> role = user_role, content = Chat_input (state pg) \<rparr>;
             pg1 = pg \<lparr> state := (state pg)
                         \<lparr> Chat_messages := Chat_messages (state pg) @ [userMessage],
                           Chat_input := [], Chat_isLoading := True \<rparr> \<rparr>;
             (result, pg2) =
               (case usr of
                  None \<Rightarrow> (Inl (TypeError NULL_ID_READ), pg1)
                | Some u \<Rightarrow>
                    call_api p (ChatWithPaper paperId (User_id u) (Chat_input (state pg))) pg1);
             pg3 = (case result of
                      Inr response \<Rightarrow>
                        pg2 \<lparr> state := (state pg2)
                               \<lparr> Chat_messages := Chat_messages (state pg2)
                                    @ [\<lparr> role = assistant, content = answer response \<rparr>] \<rparr> \<rparr>
                    | Inl e \<Rightarrow>
                        (console_error (ascii ''Failed to send message:'') e pg2)
                          \<lparr> state := (state pg2)
                               \<lparr> Chat_messages := Chat_messages (state pg2)
                                    @ [\<lparr> role = assistant, content = SEND_FAILED \<rparr>] \<rparr> \<rparr>)
         in Awaited pg1 (pg3 \<lparr> state := (state pg3) \<lparr> Chat_isLoading := False \<rparr> \<rparr>)))"


subsection \<open>Profile\<close>






text \<open>The six pages that need a session, with what each is mounted on.\<close>

datatype protected_page =
    Home "Advice platform"
  | Recommendations "TodayResponse platform"
  | History "PapersResponse platform"
  | Detail "PaperDetail platform" int
  | Chat "PaperDetail platform" int
  | Profile




text \<open>The papers on the cards of a rendered page, in document order.\<close>

fun paper_of_card :: "element \<Rightarrow> PaperItem list" where
  "paper_of_card (PaperCard n paper i l) = [paper]"
| "paper_of_card _ = []"

definition displayed_papers :: "element list \<Rightarrow> PaperItem list" where
  "displayed_papers els = concat (map paper_of_card els)"

section \<open>Example data\<close>

text \<open>
  A serializer for flat objects of integers and of strings that need no escaping, which
  is what the values of the examples are.
\<close>

definition quoted :: "jsstring \<Rightarrow> jsstring" where
  "quoted t = 0x22 # t @ [0x22]"

definition example_member :: "jsstring \<times> json \<Rightarrow> jsstring" where
  "example_member kv =
     quoted (fst kv) @ 0x3A #
       (case snd kv of JNum n \<Rightarrow> String_of_number n | JStr t \<Rightarrow> quoted t | _ \<Rightarrow> ascii ''null'')"

fun separated :: "jsstring list \<Rightarrow> jsstring" where
  "separated [] = []"
| "separated [t] = t"
| "separated (t # r # rest) = t @ 0x2C # separated (r # rest)"

definition example_stringify :: "json \<Rightarrow> jsstring" where
  "example_stringify j =
     (case j of
        JObj kvs \<Rightarrow> 0x7B # separated (map example_member kvs) @ [0x7D]
      | _ \<Rightarrow> ascii ''null'')"

text \<open>A server that answers every request with the same ok body, and a network that is down.\<close>

definition answering :: "'a \<Rightarrow> 'a platform" where
  "answering v =
     \<lparr> API_BASE_URL = [], JSON_stringify = example_stringify,
       fetch = (\<lambda>req. Inr (Ok_Response (Inr v))) \<rparr>"

definition offline :: "'a platform" where
  "offline =
     \<lparr> API_BASE_URL = [], JSON_stringify = example_stringify,
       fetch = (\<lambda>req. Inl (TypeError (ascii ''Failed to fetch''))) \<rparr>"

definition example_user :: User where
  "example_user =
     \<lparr> User_id = 4, User_username = ascii ''kim'', User_interest = ascii ''NLP'',
       User_level = ascii ''beginner'' \<rparr>"

definition example_auth :: AuthResponse where
  "example_auth =
     \<lparr> user_id = 5, username = ascii ''lee'', interest = ascii ''RAG'',
       level = ascii ''advanced'' \<rparr>"


text \<open>A parser that knows the texts of the examples: the serialized \<open>example_user\<close> and \<open>null\<close>.\<close>

definition example_parse :: "jsstring \<Rightarrow> js_error + User option" where
  "example_parse t =
     (if t = example_stringify (User_json example_user) then Inr (Some example_user)
      else if t = ascii ''null'' then Inr None
      else Inl (SyntaxError (ascii ''Unexpected token'')))"

text \<open>
  A serializer of users that is read back without ambiguity whatever the texts contain
  (it writes the sign and size of the id and the lengths of the first two texts before
  the texts), and its parser.
\<close>

definition framed_stringify :: "json \<Rightarrow> jsstring" where
  "framed_stringify j =
     (case j of
        JObj [(k1, JNum n), (k2, JStr a), (k3, JStr b), (k4, JStr c)] \<Rightarrow>
          [if n < 0 then 1 else 0, nat \<bar>n\<bar>, length a, length b] @ a @ b @ c
      | _ \<Rightarrow> [])"

definition framed_parse :: "jsstring \<Rightarrow> js_error + User option" where
  "framed_parse t =
     (case t of
        sg # m # la # lb # rest \<Rightarrow>
          Inr (Some \<lparr> User_id = (if sg = 1 then - int m else int m),
                       User_username = take la rest,
                       User_interest = take lb (drop la rest),
                       User_level = drop (la + lb) rest \<rparr>)
      | _ \<Rightarrow> Inl (SyntaxError (ascii ''Unexpected end of JSON input'')))"

text \<open>A browser that takes every write, one that takes none, and a logged-in session.\<close>

definition storage_free :: "(jsstring \<rightharpoonup> jsstring) \<Rightarrow> jsstring \<Rightarrow> jsstring \<Rightarrow> bool" where
  "storage_free storage key v = True"

definition storage_full :: "(jsstring \<rightharpoonup> jsstring) \<Rightarrow> jsstring \<Rightarrow> jsstring \<Rightarrow> bool" where
  "storage_full storage key v = False"

definition example_session :: session where
  "example_session =
     \<lparr> user = Some example_user,
       localStorage = Map.empty (USER_KEY \<mapsto> example_stringify (User_json example_user)),
       alerts = [], console = [] \<rparr>"

definition example_nodes :: "Node list" where
  "example_nodes =
     [\<lparr> Node_id = 1, Node_title = ascii ''RAG'', Node_type = recommended \<rparr>,
      \<lparr> Node_id = 2, Node_title = ascii ''BERT'', Node_type = recommended \<rparr>,
      \<lparr> Node_id = 3, Node_title = ascii ''Attention'', Node_type = common_reference \<rparr>]"

definition example_edges :: "Edge list" where
  "example_edges =
     [\<lparr> source = 1, target = 3, is_influential = True \<rparr>,
      \<lparr> source = 2, target = 9, is_influential = False \<rparr>]"

definition example_paper :: "int \<Rightarrow> PaperItem" where
  "example_paper n =
     \<lparr> paper_id = n, title = ascii ''Paper'', authors = [], recommended_at = ascii ''2024-01-15'',
       is_user_requested = False \<rparr>"

definition example_today :: TodayResponse where
  "example_today =
     \<lparr> papers = [example_paper 1, example_paper 2, example_paper 3, example_paper 4],
       total_count = 4, date = ascii ''2024-01-15'' \<rparr>"

definition example_answer :: ChatResponse where
  "example_answer =
     \<lparr> chat_id = 1, question = ascii ''Why?'', answer = ascii ''Because.'',
       chat_created_at = ascii ''2024-01-15'', chat_paper_id = 7, previous_chats = [] \<rparr>"

definition example_chat :: "jsstring \<Rightarrow> ChatState page" where
  "example_chat typed = mounted (ChatPage_init \<lparr> Chat_input := typed, Chat_isFetchingPaper := False \<rparr>)"

section \<open>Properties of the API client\<close>

lemma invoke_is_request: "\<exists>endpoint options. invoke p c = request p endpoint options"
  by (cases c)
     (auto simp: api_addToCalendar_def api_register_def api_login_def api_getAdvice_def
        api_acceptInterestChange_def api_acceptLevelChange_def api_getTodayRecommendations_def
        api_getTodayRecommendationsRelations_def api_requestPaper_def api_getPapersHistory_def
        api_getPaperDetail_def api_updateProfile_def api_sharePaperToKakao_def
        api_addPaperByArxivId_def api_chatWithPaper_def)

lemma request_ok:
  "fetch p (fetch_input p endpoint options) = Inr (Ok_Response (Inr v)) \<Longrightarrow>
   request p endpoint options = Inr v"
  by (simp add: request_def)

lemma request_failed:
  "fetch p (fetch_input p endpoint options) = Inr (Failed_Response (Inr e)) \<Longrightarrow>
   request p endpoint options = Inl (Error (detail_or_default e))"
  by (simp add: request_def)

lemma detail_or_default_present:
  "detail e = Some d \<Longrightarrow> d \<noteq> [] \<Longrightarrow> detail_or_default e = d"
  by (simp add: detail_or_default_def)

lemma detail_or_default_missing:
  "detail e = None \<or> detail e = Some [] \<Longrightarrow> detail_or_default e = API_REQUEST_FAILED"
  by (auto simp: detail_or_default_def)

text \<open>
  Claim C1. Every endpoint method of the client is the request helper applied to some
  endpoint and options. When \<open>fetch\<close> answers that request with an ok response whose
  body parses, the method returns the body; when the response is not ok, the method throws
  an \<open>Error\<close> whose message is the \<open>detail\<close> of the error body, or the fixed message
  when \<open>detail\<close> is absent or empty.
\<close>

theorem api_error_surfacing:
  "\<exists>endpoint options.
     invoke p c = request p endpoint options \<and>
     (\<forall>v. fetch p (fetch_input p endpoint options) = Inr (Ok_Response (Inr v))
        \<longrightarrow> invoke p c = Inr v) \<and>
     (\<forall>e d. fetch p (fetch_input p endpoint options) = Inr (Failed_Response (Inr e))
        \<and> detail e = Some d \<and> d \<noteq> []
        \<longrightarrow> invoke p c = Inl (Error d)) \<and>
     (\<forall>e. fetch p (fetch_input p endpoint options) = Inr (Failed_Response (Inr e))
        \<and> (detail e = None \<or> detail e = Some [])
        \<longrightarrow> invoke p c = Inl (Error API_REQUEST_FAILED))"
proof -
  obtain endpoint options where eq: "invoke p c = request p endpoint options"
    using invoke_is_request by blast
  have "\<forall>v. fetch p (fetch_input p endpoint options) = Inr (Ok_Response (Inr v))
        \<longrightarrow> invoke p c = Inr v"
    by (simp add: eq request_ok)
  moreover have "\<forall>e d. fetch p (fetch_input p endpoint options) = Inr (Failed_Response (Inr e))
        \<and> detail e = Some d \<and> d \<noteq> []
        \<longrightarrow> invoke p c = Inl (Error d)"
    by (simp add: eq request_failed detail_or_default_present)
  moreover have "\<forall>e. fetch p (fetch_input p endpoint options) = Inr (Failed_Response (Inr e))
        \<and> (detail e = None \<or> detail e = Some [])
        \<longrightarrow> invoke p c = Inl (Error API_REQUEST_FAILED)"
    using eq request_failed detail_or_default_missing by metis
  ultimately show ?thesis using eq by blast
qed

theorem api_error_surfacing_witness:
  "invoke \<lparr> API_BASE_URL = [], JSON_stringify = (\<lambda>j. []),
     fetch = (\<lambda>req. Inr (Failed_Response (Inr \<lparr> error_type = None, error_title = None,
       error_status = Some 401, detail = Some (ascii ''no'') \<rparr>))) :: Request \<Rightarrow> js_error + AuthResponse Response \<rparr>
     (Login (ascii ''a'') (ascii ''b'')) = Inl (Error (ascii ''no''))"
  using api_error_surfacing [of "\<lparr> API_BASE_URL = [], JSON_stringify = (\<lambda>j. []),
     fetch = (\<lambda>req. Inr (Failed_Response (Inr \<lparr> error_type = None, error_title = None,
       error_status = Some 401, detail = Some (ascii ''no'') \<rparr>))) :: Request \<Rightarrow> js_error + AuthResponse Response \<rparr>"
     "Login (ascii ''a'') (ascii ''b'')"]
  by (simp add: ascii_def)

text \<open>
  Claim C8. \<open>addPaperByArxivId\<close> does not depend on its \<open>userId\<close> argument: two calls
  that differ only in it behave alike on every platform, and the request that reaches
  \<open>fetch\<close> (read back through a \<open>fetch\<close> that answers with the request itself) carries
  \<open>user_id: 3\<close>.
\<close>

theorem addPaper_ignores_userId:
  "api_addPaperByArxivId p arxivId userId = api_addPaperByArxivId p arxivId userId' \<and>
   api_addPaperByArxivId
     \<lparr> API_BASE_URL = base, JSON_stringify = sfy, fetch = (\<lambda>req. Inr (Ok_Response (Inr req))) \<rparr>
     arxivId userId =
   Inr \<lparr> url = base @ ascii ''/papers/add'',
         init = \<lparr> http_method = Some (ascii ''POST''),
                  headers = [(ascii ''Content-Type'', ascii ''application/json'')],
                  body = Some (sfy (JObj [(ascii ''arxiv_id'', JStr arxivId),
                                          (ascii ''user_id'', JNum 3)])) \<rparr> \<rparr>"
  by (simp add: api_addPaperByArxivId_def request_def fetch_input_def spread_def)

theorem addPaper_ignores_userId_witness:
  "api_addPaperByArxivId
     \<lparr> API_BASE_URL = [], JSON_stringify = (\<lambda>j. []),
       fetch = (\<lambda>req. Inr (Ok_Response (Inr req))) \<rparr> (ascii ''2005.11401'') 7 =
   api_addPaperByArxivId
     \<lparr> API_BASE_URL = [], JSON_stringify = (\<lambda>j. []),
       fetch = (\<lambda>req. Inr (Ok_Response (Inr req))) \<rparr> (ascii ''2005.11401'') 8"
  using addPaper_ignores_userId
    [of "\<lparr> API_BASE_URL = [], JSON_stringify = (\<lambda>j. []),
           fetch = (\<lambda>req. Inr (Ok_Response (Inr req))) \<rparr>" "ascii ''2005.11401''" 7 8
        "[]" "\<lambda>j. []"]
  by (rule conjunct1)


section \<open>Properties of the session store\<close>

lemma store_user_written:
  "quota (localStorage st) USER_KEY (sfy (User_json u)) \<Longrightarrow>
   store_user quota sfy u st =
     (None, st \<lparr> user := Some u,
                 localStorage := (localStorage st)(USER_KEY \<mapsto> sfy (User_json u)) \<rparr>)"
  by (simp add: store_user_def setItem_def)

lemma store_user_refused:
  "\<not> quota (localStorage st) USER_KEY (sfy (User_json u)) \<Longrightarrow>
   store_user quota sfy u st = (Some (DOMException QUOTA_EXCEEDED), st \<lparr> user := Some u \<rparr>)"
  by (simp add: store_user_def setItem_def)

lemma report_failure_frame [simp]:
  "user (report_failure label fallback e st) = user st"
  "localStorage (report_failure label fallback e st) = localStorage st"
  by (simp_all add: report_failure_def)

lemma login_failure:
  "api_login p usern password = Inl e \<Longrightarrow>
   login quota p usern password st =
     (False, report_failure (ascii ''Login failed:'') LOGIN_FAILED e st)"
  by (simp add: login_def)

lemma login_written:
  assumes "api_login p usern password = Inr response"
    and "quota (localStorage st) USER_KEY (JSON_stringify p (User_json
           \<lparr> User_id = user_id response, User_username = username response,
             User_interest = interest response, User_level = level response \<rparr>))"
  shows "login quota p usern password st =
     (True, st \<lparr> user := Some \<lparr> User_id = user_id response, User_username = username response,
                                User_interest = interest response, User_level = level response \<rparr>,
                 localStorage := (localStorage st)(USER_KEY \<mapsto> JSON_stringify p (User_json
                   \<lparr> User_id = user_id response, User_username = username response,
                     User_interest = interest response, User_level = level response \<rparr>)) \<rparr>)"
  using assms by (simp add: login_def store_user_written)

lemma login_refused:
  assumes "api_login p usern password = Inr response"
    and "\<not> quota (localStorage st) USER_KEY (JSON_stringify p (User_json
           \<lparr> User_id = user_id response, User_username = username response,
             User_interest = interest response, User_level = level response \<rparr>))"
  shows "login quota p usern password st =
     (False, report_failure (ascii ''Login failed:'') LOGIN_FAILED (DOMException QUOTA_EXCEEDED)
        (st \<lparr> user := Some \<lparr> User_id = user_id response, User_username = username response,
                              User_interest = interest response, User_level = level response \<rparr> \<rparr>))"
  using assms by (simp add: login_def store_user_refused)

text \<open>
  Claim C5, as amended. \<open>login\<close> returns \<open>true\<close> exactly when the API login call
  resolves and the browser takes the write of the user entry. When the API call throws,
  it returns \<open>false\<close> and leaves the in-memory user and the local storage as they were.
  When the API call resolves and the browser refuses the write, it returns \<open>false\<close> with
  the in-memory user set to the one of the response and the local storage as it was.
\<close>

theorem login_result:
  "(fst (login quota p usern password st) \<longleftrightarrow>
      (\<exists>response. api_login p usern password = Inr response \<and>
         quota (localStorage st) USER_KEY (JSON_stringify p (User_json
           \<lparr> User_id = user_id response, User_username = username response,
             User_interest = interest response, User_level = level response \<rparr>)))) \<and>
   (\<forall>e. api_login p usern password = Inl e \<longrightarrow>
      fst (login quota p usern password st) = False \<and>
      user (snd (login quota p usern password st)) = user st \<and>
      localStorage (snd (login quota p usern password st)) = localStorage st) \<and>
   (\<forall>response. api_login p usern password = Inr response \<and>
      \<not> quota (localStorage st) USER_KEY (JSON_stringify p (User_json
           \<lparr> User_id = user_id response, User_username = username response,
             User_interest = interest response, User_level = level response \<rparr>)) \<longrightarrow>
      user (snd (login quota p usern password st)) =
        Some \<lparr> User_id = user_id response, User_username = username response,
               User_interest = interest response, User_level = level response \<rparr> \<and>
      localStorage (snd (login quota p usern password st)) = localStorage st)"
proof (cases "api_login p usern password")
  case (Inl e)
  then show ?thesis by (simp add: login_failure)
next
  case (Inr response)
  show ?thesis
  proof (cases "quota (localStorage st) USER_KEY (JSON_stringify p (User_json
           \<lparr> User_id = user_id response, User_username = username response,
             User_interest = interest response, User_level = level response \<rparr>))")
    case True
    with Inr show ?thesis by (simp add: login_written)
  next
    case False
    with Inr show ?thesis by (simp add: login_refused)
  qed
qed

theorem login_result_witness:
  "fst (login storage_free (answering example_auth) (ascii ''lee'') (ascii ''pw'') example_session) \<and>
   api_login offline (ascii ''lee'') (ascii ''pw'')
     = (Inl (TypeError (ascii ''Failed to fetch'')) :: js_error + AuthResponse) \<and>
   \<not> fst (login storage_free offline (ascii ''lee'') (ascii ''pw'') example_session) \<and>
   user (snd (login storage_free offline (ascii ''lee'') (ascii ''pw'') example_session))
     = Some example_user \<and>
   localStorage (snd (login storage_free offline (ascii ''lee'') (ascii ''pw'') example_session))
     USER_KEY = Some (example_stringify (User_json example_user)) \<and>
   user (snd (login storage_full (answering example_auth) (ascii ''lee'') (ascii ''pw'')
     example_session)) =
     Some \<lparr> User_id = 5, User_username = ascii ''lee'', User_interest = ascii ''RAG'',
            User_level = ascii ''advanced'' \<rparr> \<and>
   localStorage (snd (login storage_full (answering example_auth) (ascii ''lee'') (ascii ''pw'')
     example_session)) USER_KEY = Some (example_stringify (User_json example_user))"
proof -
  have a: "api_login (answering example_auth) (ascii ''lee'') (ascii ''pw'') = Inr example_auth"
    by (simp add: api_login_def request_def answering_def)
  have b: "api_login offline (ascii ''lee'') (ascii ''pw'')
     = (Inl (TypeError (ascii ''Failed to fetch'')) :: js_error + AuthResponse)"
    by (simp add: api_login_def request_def offline_def)
  have s: "user example_session = Some example_user"
    "localStorage example_session USER_KEY = Some (example_stringify (User_json example_user))"
    by (simp_all add: example_session_def)
  from login_result [of storage_free "answering example_auth" "ascii ''lee''" "ascii ''pw''"
      example_session] a
  have 1: "fst (login storage_free (answering example_auth) (ascii ''lee'') (ascii ''pw'')
      example_session)"
    by (simp add: storage_free_def)
  from login_result [of storage_free "offline :: AuthResponse platform" "ascii ''lee''"
      "ascii ''pw''" example_session] b
  have 2: "\<not> fst (login storage_free offline (ascii ''lee'') (ascii ''pw'') example_session)"
    "user (snd (login storage_free offline (ascii ''lee'') (ascii ''pw'') example_session))
       = user example_session"
    "localStorage (snd (login storage_free offline (ascii ''lee'') (ascii ''pw'') example_session))
       = localStorage example_session"
    by simp_all
  from login_result [of storage_full "answering example_auth" "ascii ''lee''" "ascii ''pw''"
      example_session] a
  have 3: "user (snd (login storage_full (answering example_auth) (ascii ''lee'') (ascii ''pw'')
       example_session)) =
     Some \<lparr> User_id = 5, User_username = ascii ''lee'', User_interest = ascii ''RAG'',
            User_level = ascii ''advanced'' \<rparr>"
    "localStorage (snd (login storage_full (answering example_auth) (ascii ''lee'') (ascii ''pw'')
       example_session)) = localStorage example_session"
    by (simp_all add: storage_full_def example_auth_def)
  from 1 2 3 b s show ?thesis by simp
qed

text \<open>
  The claim without the condition on the write fails: with a storage that refuses the
  write, the API call resolves and \<open>login\<close> returns \<open>false\<close>.
\<close>

theorem login_result_counterexample:
  "api_login (answering example_auth) (ascii ''lee'') (ascii ''pw'') = Inr example_auth \<and>
   \<not> fst (login storage_full (answering example_auth) (ascii ''lee'') (ascii ''pw'')
            example_session)"
  by (simp add: login_def store_user_def setItem_def storage_full_def api_login_def
        request_def answering_def)

lemma updateProfile_written:
  assumes "api_updateProfile p (User_id u) intr lvl = Inr response"
    and "quota (localStorage st) USER_KEY (JSON_stringify p (User_json
           \<lparr> User_id = User_id u, User_username = User_username u,
             User_interest = intr, User_level = lvl \<rparr>))"
  shows "updateProfile quota p (Some u) intr lvl st =
     (True, st \<lparr> user := Some \<lparr> User_id = User_id u, User_username = User_username u,
                                User_interest = intr, User_level = lvl \<rparr>,
                 localStorage := (localStorage st)(USER_KEY \<mapsto> JSON_stringify p (User_json
                   \<lparr> User_id = User_id u, User_username = User_username u,
                     User_interest = intr, User_level = lvl \<rparr>)) \<rparr>)"
  using assms by (simp add: updateProfile_def store_user_written)

lemma updateProfile_refused:
  assumes "api_updateProfile p (User_id u) intr lvl = Inr response"
    and "\<not> quota (localStorage st) USER_KEY (JSON_stringify p (User_json
           \<lparr> User_id = User_id u, User_username = User_username u,
             User_interest = intr, User_level = lvl \<rparr>))"
  shows "updateProfile quota p (Some u) intr lvl st =
     (False, report_failure (ascii ''Profile update failed:'') PROFILE_UPDATE_FAILED
        (DOMException QUOTA_EXCEEDED)
        (st \<lparr> user := Some \<lparr> User_id = User_id u, User_username = User_username u,
                              User_interest = intr, User_level = lvl \<rparr> \<rparr>))"
  using assms by (simp add: updateProfile_def store_user_refused)

lemma updateProfile_failure:
  "api_updateProfile p (User_id u) intr lvl = Inl e \<Longrightarrow>
   updateProfile quota p (Some u) intr lvl st =
     (False, report_failure (ascii ''Profile update failed:'') PROFILE_UPDATE_FAILED e st)"
  by (simp add: updateProfile_def)

text \<open>
  Claim C6, as amended. With a user logged in, the API call resolving and the browser
  taking the write of the user entry, \<open>updateProfile\<close> returns \<open>true\<close> and stores a user
  with the given interest and level and the old id and username, in memory and under the
  storage key. With no user it returns \<open>false\<close> and the state unchanged whatever the
  platform is, so the client is not consulted. When the API call throws it returns
  \<open>false\<close> with the user and the storage unchanged. When the API call resolves and the
  browser refuses the write, it returns \<open>false\<close> with the updated user in memory and the
  storage unchanged.
\<close>

theorem updateProfile_frame:
  "(\<forall>u response.
      user st = Some u \<and> api_updateProfile p (User_id u) intr lvl = Inr response \<and>
      quota (localStorage st) USER_KEY (JSON_stringify p (User_json
        \<lparr> User_id = User_id u, User_username = User_username u,
          User_interest = intr, User_level = lvl \<rparr>)) \<longrightarrow>
      fst (updateProfile quota p (user st) intr lvl st) = True \<and>
      user (snd (updateProfile quota p (user st) intr lvl st)) =
        Some \<lparr> User_id = User_id u, User_username = User_username u,
               User_interest = intr, User_level = lvl \<rparr> \<and>
      localStorage (snd (updateProfile quota p (user st) intr lvl st)) =
        (localStorage st)(USER_KEY \<mapsto> JSON_stringify p (User_json
           \<lparr> User_id = User_id u, User_username = User_username u,
             User_interest = intr, User_level = lvl \<rparr>))) \<and>
   (user st = None \<longrightarrow> (\<forall>p'. updateProfile quota p' (user st) intr lvl st = (False, st))) \<and>
   (\<forall>u e. user st = Some u \<and> api_updateProfile p (User_id u) intr lvl = Inl e \<longrightarrow>
      fst (updateProfile quota p (user st) intr lvl st) = False \<and>
      user (snd (updateProfile quota p (user st) intr lvl st)) = user st \<and>
      localStorage (snd (updateProfile quota p (user st) intr lvl st)) = localStorage st) \<and>
   (\<forall>u response.
      user st = Some u \<and> api_updateProfile p (User_id u) intr lvl = Inr response \<and>
      \<not> quota (localStorage st) USER_KEY (JSON_stringify p (User_json
        \<lparr> User_id = User_id u, User_username = User_username u,
          User_interest = intr, User_level = lvl \<rparr>)) \<longrightarrow>
      fst (updateProfile quota p (user st) intr lvl st) = False \<and>
      user (snd (updateProfile quota p (user st) intr lvl st)) =
        Some \<lparr> User_id = User_id u, User_username = User_username u,
               User_interest = intr, User_level = lvl \<rparr> \<and>
      localStorage (snd (updateProfile quota p (user st) intr lvl st)) = localStorage st)"
proof (intro conjI allI impI)
  fix u response
  assume "user st = Some u \<and> api_updateProfile p (User_id u) intr lvl = Inr response \<and>
      quota (localStorage st) USER_KEY (JSON_stringify p (User_json
        \<lparr> User_id = User_id u, User_username = User_username u,
          User_interest = intr, User_level = lvl \<rparr>))"
  then have eq: "updateProfile quota p (user st) intr lvl st =
     (True, st \<lparr> user := Some \<lparr> User_id = User_id u, User_username = User_username u,
                                User_interest = intr, User_level = lvl \<rparr>,
                 localStorage := (localStorage st)(USER_KEY \<mapsto> JSON_stringify p (User_json
                   \<lparr> User_id = User_id u, User_username = User_username u,
                     User_interest = intr, User_level = lvl \<rparr>)) \<rparr>)"
    by (simp add: updateProfile_written)
  show "fst (updateProfile quota p (user st) intr lvl st) = True"
    by (simp add: eq)
  show "user (snd (updateProfile quota p (user st) intr lvl st)) =
        Some \<lparr> User_id = User_id u, User_username = User_username u,
               User_interest = intr, User_level = lvl \<rparr>"
    by (simp add: eq)
  show "localStorage (snd (updateProfile quota p (user st) intr lvl st)) =
        (localStorage st)(USER_KEY \<mapsto> JSON_stringify p (User_json
           \<lparr> User_id = User_id u, User_username = User_username u,
             User_interest = intr, User_level = lvl \<rparr>))"
    by (simp add: eq)
next
  fix p' :: "'b platform"
  assume "user st = None"
  then show "updateProfile quota p' (user st) intr lvl st = (False, st)"
    by (simp add: updateProfile_def)
next
  fix u e
  assume a: "user st = Some u \<and> api_updateProfile p (User_id u) intr lvl = Inl e"
  then have eq: "updateProfile quota p (user st) intr lvl st =
     (False, report_failure (ascii ''Profile update failed:'') PROFILE_UPDATE_FAILED e st)"
    by (simp add: updateProfile_failure)
  show "fst (updateProfile quota p (user st) intr lvl st) = False"
    by (simp add: eq)
  show "user (snd (updateProfile quota p (user st) intr lvl st)) = user st"
    by (simp add: eq)
  show "localStorage (snd (updateProfile quota p (user st) intr lvl st)) = localStorage st"
    by (simp add: eq)
next
  fix u response
  assume "user st = Some u \<and> api_updateProfile p (User_id u) intr lvl = Inr response \<and>
      \<not> quota (localStorage st) USER_KEY (JSON_stringify p (User_json
        \<lparr> User_id = User_id u, User_username = User_username u,
          User_interest = intr, User_level = lvl \<rparr>))"
  then have eq: "updateProfile quota p (user st) intr lvl st =
     (False, report_failure (ascii ''Profile update failed:'') PROFILE_UPDATE_FAILED
        (DOMException QUOTA_EXCEEDED)
        (st \<lparr> user := Some \<lparr> User_id = User_id u, User_username = User_username u,
                              User_interest = intr, User_level = lvl \<rparr> \<rparr>))"
    by (simp add: updateProfile_refused)
  show "fst (updateProfile quota p (user st) intr lvl st) = False"
    by (simp add: eq)
  show "user (snd (updateProfile quota p (user st) intr lvl st)) =
        Some \<lparr> User_id = User_id u, User_username = User_username u,
               User_interest = intr, User_level = lvl \<rparr>"
    by (simp add: eq)
  show "localStorage (snd (updateProfile quota p (user st) intr lvl st)) = localStorage st"
    by (simp add: eq)
qed

theorem updateProfile_frame_witness:
  "fst (updateProfile storage_free (answering ()) (user example_session)
          (ascii ''RAG'') (ascii ''advanced'') example_session) \<and>
   user (snd (updateProfile storage_free (answering ()) (user example_session)
          (ascii ''RAG'') (ascii ''advanced'') example_session)) =
     Some \<lparr> User_id = 4, User_username = ascii ''kim'',
            User_interest = ascii ''RAG'', User_level = ascii ''advanced'' \<rparr> \<and>
   \<not> fst (updateProfile storage_free (offline :: unit platform) (user example_session)
          (ascii ''RAG'') (ascii ''advanced'') example_session) \<and>
   user (snd (updateProfile storage_free (offline :: unit platform) (user example_session)
          (ascii ''RAG'') (ascii ''advanced'') example_session)) = Some example_user \<and>
   updateProfile storage_free (answering ()) (user (AuthProvider_init Map.empty))
          (ascii ''RAG'') (ascii ''advanced'') (AuthProvider_init Map.empty)
     = (False, AuthProvider_init Map.empty) \<and>
   user (snd (updateProfile storage_full (answering ()) (user example_session)
          (ascii ''RAG'') (ascii ''advanced'') example_session)) =
     Some \<lparr> User_id = 4, User_username = ascii ''kim'',
            User_interest = ascii ''RAG'', User_level = ascii ''advanced'' \<rparr> \<and>
   localStorage (snd (updateProfile storage_full (answering ()) (user example_session)
          (ascii ''RAG'') (ascii ''advanced'') example_session)) USER_KEY =
     Some (example_stringify (User_json example_user))"
proof -
  have s: "user example_session = Some example_user"
    by (simp add: example_session_def)
  have u: "User_id example_user = 4" "User_username example_user = ascii ''kim''"
    by (simp_all add: example_user_def)
  have a: "api_updateProfile (answering ()) (User_id example_user) (ascii ''RAG'')
             (ascii ''advanced'') = Inr ()"
    by (simp add: api_updateProfile_def request_def answering_def)
  have b: "api_updateProfile (offline :: unit platform) (User_id example_user) (ascii ''RAG'')
             (ascii ''advanced'') = Inl (TypeError (ascii ''Failed to fetch''))"
    by (simp add: api_updateProfile_def request_def offline_def)
  from updateProfile_frame [of example_session "answering ()" "ascii ''RAG''"
      "ascii ''advanced''" storage_free] s a
  have 1: "fst (updateProfile storage_free (answering ()) (user example_session)
          (ascii ''RAG'') (ascii ''advanced'') example_session)"
    "user (snd (updateProfile storage_free (answering ()) (user example_session)
          (ascii ''RAG'') (ascii ''advanced'') example_session)) =
     Some \<lparr> User_id = 4, User_username = ascii ''kim'',
            User_interest = ascii ''RAG'', User_level = ascii ''advanced'' \<rparr>"
    by (simp_all add: storage_free_def u)
  from updateProfile_frame [of example_session "offline :: unit platform" "ascii ''RAG''"
      "ascii ''advanced''" storage_free] s b
  have 2: "\<not> fst (updateProfile storage_free (offline :: unit platform) (user example_session)
          (ascii ''RAG'') (ascii ''advanced'') example_session)"
    "user (snd (updateProfile storage_free (offline :: unit platform) (user example_session)
          (ascii ''RAG'') (ascii ''advanced'') example_session)) = Some example_user"
    by simp_all
  have n: "user (AuthProvider_init Map.empty) = None"
    by (simp add: AuthProvider_init_def)
  have 3: "updateProfile storage_free (answering ()) (user (AuthProvider_init Map.empty))
          (ascii ''RAG'') (ascii ''advanced'') (AuthProvider_init Map.empty)
     = (False, AuthProvider_init Map.empty)"
    using n
    by (rule updateProfile_frame [of "AuthProvider_init Map.empty" "answering ()"
          "ascii ''RAG''" "ascii ''advanced''" storage_free,
          THEN conjunct2, THEN conjunct1, THEN mp, THEN spec])
  from updateProfile_frame [of example_session "answering ()" "ascii ''RAG''"
      "ascii ''advanced''" storage_full] s a
  have 4: "user (snd (updateProfile storage_full (answering ()) (user example_session)
          (ascii ''RAG'') (ascii ''advanced'') example_session)) =
     Some \<lparr> User_id = 4, User_username = ascii ''kim'',
            User_interest = ascii ''RAG'', User_level = ascii ''advanced'' \<rparr>"
    "localStorage (snd (updateProfile storage_full (answering ()) (user example_session)
          (ascii ''RAG'') (ascii ''advanced'') example_session)) = localStorage example_session"
    by (simp_all add: storage_full_def u)
  have l: "localStorage example_session USER_KEY =
      Some (example_stringify (User_json example_user))"
    by (simp add: example_session_def)
  from 1 2 3 4 l show ?thesis by simp
qed

text \<open>
  The claim without the condition on the write fails: with a user logged in, the API
  call resolving and a storage that refuses the write, \<open>updateProfile\<close> returns \<open>false\<close>.
\<close>

theorem updateProfile_frame_counterexample:
  "user example_session = Some example_user \<and>
   api_updateProfile (answering ()) (User_id example_user) (ascii ''RAG'') (ascii ''advanced'')
     = Inr () \<and>
   \<not> fst (updateProfile storage_full (answering ()) (user example_session)
            (ascii ''RAG'') (ascii ''advanced'') example_session)"
  by (simp add: updateProfile_def store_user_def setItem_def storage_full_def
        api_updateProfile_def request_def answering_def example_session_def)

lemma consistent_report_failure:
  "consistent sfy st \<Longrightarrow> consistent sfy (report_failure label fallback e st)"
  by (simp add: consistent_def split: option.splits)

lemma consistent_init:
  "storage USER_KEY = None \<Longrightarrow> consistent sfy (AuthProvider_init storage)"
  by (simp add: consistent_def AuthProvider_init_def)

lemma consistent_restored:
  "storage USER_KEY = Some (sfy (User_json u)) \<Longrightarrow>
   consistent sfy ((AuthProvider_init storage) \<lparr> user := Some u \<rparr>)"
  by (simp add: consistent_def AuthProvider_init_def)

lemma consistent_logout: "consistent sfy (logout st)"
  by (simp add: consistent_def logout_def)

lemma mount_absent:
  "storage USER_KEY = None \<Longrightarrow>
   AuthProvider_mount JSON_parse (AuthProvider_init storage) = Inr (AuthProvider_init storage)"
  by (simp add: AuthProvider_mount_def AuthProvider_init_def)

lemma mount_present:
  "storage USER_KEY = Some s \<Longrightarrow> s \<noteq> [] \<Longrightarrow> JSON_parse s = Inr parsed \<Longrightarrow>
   AuthProvider_mount JSON_parse (AuthProvider_init storage) =
     Inr ((AuthProvider_init storage) \<lparr> user := parsed \<rparr>)"
  by (simp add: AuthProvider_mount_def AuthProvider_init_def)

text \<open>
  What the mount effect needs of an entry it finds: the state after it is consistent
  exactly when the entry is not empty and parses to a user whose serialization it is.
\<close>

lemma mount_consistent_iff:
  assumes "storage USER_KEY = Some s"
    and "AuthProvider_mount JSON_parse (AuthProvider_init storage) = Inr st"
  shows "consistent sfy st \<longleftrightarrow>
           s \<noteq> [] \<and> (\<exists>u. JSON_parse s = Inr (Some u) \<and> sfy (User_json u) = s)"
proof (cases "s = []")
  case True
  with assms have "st = AuthProvider_init storage"
    by (simp add: AuthProvider_mount_def AuthProvider_init_def)
  with assms(1) True show ?thesis
    by (simp add: consistent_def AuthProvider_init_def)
next
  case False
  with assms obtain parsed where p: "JSON_parse s = Inr parsed"
    and st: "st = (AuthProvider_init storage) \<lparr> user := parsed \<rparr>"
    by (auto simp: AuthProvider_mount_def AuthProvider_init_def split: sum.splits)
  show ?thesis
    using assms(1) False p
    by (cases parsed) (auto simp: st consistent_def AuthProvider_init_def)
qed

text \<open>A reload keeps the invariant when the parser reads back what the serializer writes.\<close>

lemma consistent_reload:
  assumes rt: "\<forall>u. sfy (User_json u) \<noteq> [] \<and> JSON_parse (sfy (User_json u)) = Inr (Some u)"
    and inv: "consistent sfy st"
  shows "consistent sfy (store_step base sfy JSON_parse quota Reload st)"
proof (cases "user st")
  case None
  with inv have "localStorage st USER_KEY = None"
    by (simp add: consistent_def)
  then show ?thesis
    by (simp add: mount_absent consistent_init)
next
  case (Some u)
  with inv have e: "localStorage st USER_KEY = Some (sfy (User_json u))"
    by (simp add: consistent_def)
  from rt have "sfy (User_json u) \<noteq> []" "JSON_parse (sfy (User_json u)) = Inr (Some u)"
    by simp_all
  then have "AuthProvider_mount JSON_parse (AuthProvider_init (localStorage st)) =
      Inr ((AuthProvider_init (localStorage st)) \<lparr> user := Some u \<rparr>)"
    using e by (simp add: mount_present)
  then show ?thesis
    using e by (simp add: consistent_restored)
qed

lemma consistent_step:
  assumes rt: "\<forall>u. sfy (User_json u) \<noteq> [] \<and> JSON_parse (sfy (User_json u)) = Inr (Some u)"
    and free: "\<forall>storage v. quota storage USER_KEY v"
    and inv: "consistent sfy st"
  shows "consistent sfy (store_step base sfy JSON_parse quota ev st)"
proof -
  have w: "\<And>u s. store_user quota sfy u s =
      (None, s \<lparr> user := Some u,
                 localStorage := (localStorage s)(USER_KEY \<mapsto> sfy (User_json u)) \<rparr>)"
    using free by (simp add: store_user_written)
  have c: "\<And>u s. consistent sfy
      (s \<lparr> user := Some u, localStorage := (localStorage s)(USER_KEY \<mapsto> sfy (User_json u)) \<rparr>)"
    by (simp add: consistent_def)
  show ?thesis
  proof (cases ev)
    case (Signup net u pw i l)
    show ?thesis
      using inv
      by (simp add: Signup signup_def w c consistent_report_failure Let_def split: sum.splits)
  next
    case (LoginEv net u pw)
    show ?thesis
      using inv
      by (simp add: LoginEv login_def w c consistent_report_failure Let_def split: sum.splits)
  next
    case Logout
    then show ?thesis by (simp add: consistent_logout)
  next
    case (UpdateInterest usr i)
    show ?thesis
      using inv by (simp add: UpdateInterest updateInterest_def w c split: option.splits)
  next
    case (UpdateLevel usr l)
    show ?thesis
      using inv by (simp add: UpdateLevel updateLevel_def w c split: option.splits)
  next
    case (UpdateProfileEv net usr i l)
    show ?thesis
      using inv
      by (simp add: UpdateProfileEv updateProfile_def w c consistent_report_failure Let_def
            split: option.splits sum.splits)
  next
    case Reload
    show ?thesis
      unfolding Reload using rt inv by (rule consistent_reload)
  qed
qed

lemma consistent_run:
  assumes "\<forall>u. sfy (User_json u) \<noteq> [] \<and> JSON_parse (sfy (User_json u)) = Inr (Some u)"
    and "\<forall>storage v. quota storage USER_KEY v"
  shows "consistent sfy st \<Longrightarrow> consistent sfy (store_run base sfy JSON_parse quota evs st)"
  unfolding store_run_def
  using assms
  by (induction evs arbitrary: st) (simp_all add: consistent_step del: store_step.simps)

text \<open>
  Claim C2, as amended. Take a browser whose storage has no \<open>user\<close> entry yet, whose
  \<open>JSON.parse\<close> reads back every user that \<open>JSON.stringify\<close> writes, to a text that is
  not empty, and which takes every write of the entry. Then the mount effect returns with no
  user, and the storage entry is consistent with the in-memory user after every sequence
  of signup, login, logout, updateInterest, updateLevel, updateProfile and reloads of the
  page (a fresh provider that loads the entry), whatever the network answers and whichever
  render the update operations come from.
\<close>

theorem session_storage_consistent:
  assumes "storage USER_KEY = None"
    and "\<forall>u. sfy (User_json u) \<noteq> [] \<and> JSON_parse (sfy (User_json u)) = Inr (Some u)"
    and "\<forall>storage v. quota storage USER_KEY v"
  shows "AuthProvider_mount JSON_parse (AuthProvider_init storage) = Inr (AuthProvider_init storage)
         \<and> (\<forall>evs. consistent sfy
                (store_run base sfy JSON_parse quota evs (AuthProvider_init storage)))"
proof (intro conjI allI)
  show "AuthProvider_mount JSON_parse (AuthProvider_init storage) = Inr (AuthProvider_init storage)"
    using assms(1) by (rule mount_absent)
next
  fix evs
  have "consistent sfy (AuthProvider_init storage)"
    using assms(1) by (rule consistent_init)
  with assms(2,3)
  show "consistent sfy (store_run base sfy JSON_parse quota evs (AuthProvider_init storage))"
    by (rule consistent_run)
qed

lemma framed_back:
  "framed_stringify (User_json u) \<noteq> [] \<and>
   framed_parse (framed_stringify (User_json u)) = Inr (Some u)"
  by (cases u) (simp add: framed_stringify_def framed_parse_def User_json_def)

theorem session_storage_consistent_witness:
  "consistent framed_stringify
     (store_run [] framed_stringify framed_parse storage_free
        [LoginEv (fetch (answering example_auth)) (ascii ''lee'') (ascii ''pw''), Reload,
         UpdateInterest (Some example_user) (ascii ''LLM''), Reload, Logout, Reload,
         Signup (fetch offline) (ascii ''kim'') (ascii ''pw'') (ascii ''NLP'') (ascii ''beginner'')]
        (AuthProvider_init Map.empty)) \<and>
   user (store_run [] framed_stringify framed_parse storage_free
        [LoginEv (fetch (answering example_auth)) (ascii ''lee'') (ascii ''pw''), Reload]
        (AuthProvider_init Map.empty)) =
     Some \<lparr> User_id = 5, User_username = ascii ''lee'', User_interest = ascii ''RAG'',
            User_level = ascii ''advanced'' \<rparr> \<and>
   localStorage (store_run [] framed_stringify framed_parse storage_free
        [LoginEv (fetch (answering example_auth)) (ascii ''lee'') (ascii ''pw''), Reload]
        (AuthProvider_init Map.empty)) USER_KEY =
     Some (framed_stringify (User_json
       \<lparr> User_id = 5, User_username = ascii ''lee'', User_interest = ascii ''RAG'',
         User_level = ascii ''advanced'' \<rparr>))"
proof -
  have f: "\<forall>storage v. storage_free storage USER_KEY v"
    by (simp add: storage_free_def)
  have b: "\<forall>u. framed_stringify (User_json u) \<noteq> [] \<and>
               framed_parse (framed_stringify (User_json u)) = Inr (Some u)"
    using framed_back by blast
  have e: "(Map.empty :: jsstring \<rightharpoonup> jsstring) USER_KEY = None"
    by simp
  from e b f
    session_storage_consistent [where storage = Map.empty and sfy = framed_stringify
      and JSON_parse = framed_parse and quota = storage_free and base = "[]"]
  have c: "\<forall>evs. consistent framed_stringify
      (store_run [] framed_stringify framed_parse storage_free evs (AuthProvider_init Map.empty))"
    by simp
  let ?lee = "\<lparr> User_id = 5, User_username = ascii ''lee'', User_interest = ascii ''RAG'',
            User_level = ascii ''advanced'' \<rparr>"
  have l: "store_step [] framed_stringify framed_parse storage_free
             (LoginEv (fetch (answering example_auth)) (ascii ''lee'') (ascii ''pw''))
             (AuthProvider_init Map.empty) =
           (AuthProvider_init Map.empty)
             \<lparr> user := Some ?lee,
               localStorage := Map.empty (USER_KEY \<mapsto> framed_stringify (User_json ?lee)) \<rparr>"
    by (simp add: login_def api_login_def request_def answering_def store_user_def setItem_def
          storage_free_def example_auth_def AuthProvider_init_def Let_def)
  have r: "store_step [] framed_stringify framed_parse storage_free Reload
             ((AuthProvider_init Map.empty)
               \<lparr> user := Some ?lee,
                 localStorage := Map.empty (USER_KEY \<mapsto> framed_stringify (User_json ?lee)) \<rparr>) =
           (AuthProvider_init (Map.empty (USER_KEY \<mapsto> framed_stringify (User_json ?lee))))
             \<lparr> user := Some ?lee \<rparr>"
    using framed_back [of ?lee]
    by (simp add: AuthProvider_mount_def AuthProvider_init_def)
  have u: "store_run [] framed_stringify framed_parse storage_free
        [LoginEv (fetch (answering example_auth)) (ascii ''lee'') (ascii ''pw''), Reload]
        (AuthProvider_init Map.empty) =
      (AuthProvider_init (Map.empty (USER_KEY \<mapsto> framed_stringify (User_json ?lee))))
             \<lparr> user := Some ?lee \<rparr>"
    by (simp add: store_run_def l r del: store_step.simps)
  from c u show ?thesis
    by (simp add: AuthProvider_init_def)
qed

text \<open>
  Claim C2 as written fails without these conditions. A storage whose entry is the text
  \<open>null\<close> is loaded without an error into a state with no user while the entry stays; and
  when the browser refuses the write, a login that the API accepted leaves the user set in
  memory with no entry in the storage.
\<close>

theorem session_storage_consistent_counterexample:
  "AuthProvider_mount example_parse (AuthProvider_init (Map.empty (USER_KEY \<mapsto> ascii ''null'')))
     = Inr (AuthProvider_init (Map.empty (USER_KEY \<mapsto> ascii ''null''))) \<and>
   \<not> consistent example_stringify (AuthProvider_init (Map.empty (USER_KEY \<mapsto> ascii ''null''))) \<and>
   \<not> consistent example_stringify
       (store_run [] example_stringify example_parse storage_full
          [LoginEv (fetch (answering example_auth)) (ascii ''lee'') (ascii ''pw'')]
          (AuthProvider_init Map.empty))"
proof -
  have d: "ascii ''null'' \<noteq> example_stringify (User_json example_user)"
    by (simp add: example_stringify_def User_json_def ascii_def)
  have "example_parse (ascii ''null'') = Inr None"
    using d by (simp add: example_parse_def)
  then have 1: "AuthProvider_mount example_parse
      (AuthProvider_init (Map.empty (USER_KEY \<mapsto> ascii ''null'')))
     = Inr (AuthProvider_init (Map.empty (USER_KEY \<mapsto> ascii ''null'')))"
    by (simp add: AuthProvider_mount_def AuthProvider_init_def ascii_def)
  have 2: "\<not> consistent example_stringify
      (AuthProvider_init (Map.empty (USER_KEY \<mapsto> ascii ''null'')))"
    by (simp add: consistent_def AuthProvider_init_def)
  have 3: "\<not> consistent example_stringify
       (store_run [] example_stringify example_parse storage_full
          [LoginEv (fetch (answering example_auth)) (ascii ''lee'') (ascii ''pw'')]
          (AuthProvider_init Map.empty))"
    by (simp add: store_run_def login_def api_login_def request_def answering_def
          store_user_def setItem_def storage_full_def consistent_def report_failure_def
          AuthProvider_init_def Let_def)
  from 1 2 3 show ?thesis by blast
qed


section \<open>Properties of the graph renderer\<close>

lemma map_enumerate_nth:
  "map (\<lambda>(idx, v). f idx v) (enumerate 0 xs) = map (\<lambda>i. f i (xs ! i)) [0..<length xs]"
  by (rule nth_equalityI) (simp_all add: nth_enumerate_eq)

lemma recommendedPositions_eq:
  "recommendedPositions nodes =
     map (\<lambda>i. place (recommendedNodes nodes ! i) (100 + of_nat i * 120) 150)
       [0..<length (recommendedNodes nodes)]"
  unfolding recommendedPositions_def by (rule map_enumerate_nth)

lemma commonRefPositions_eq:
  "commonRefPositions nodes = map (\<lambda>n. place n 200 50) (commonRefNodes nodes)"
  unfolding commonRefPositions_def
  by (rule nth_equalityI) (simp_all add: nth_enumerate_eq)

lemma place_sel [simp]:
  "Node_id (place n px py) = Node_id n"
  "Node_title (place n px py) = Node_title n"
  "Node_type (place n px py) = Node_type n"
  "pos_x (place n px py) = px"
  "pos_y (place n px py) = py"
  by (simp_all add: place_def)

lemma ids_recommendedPositions:
  "map Node_id (recommendedPositions nodes) = map Node_id (recommendedNodes nodes)"
  unfolding recommendedPositions_eq
  by (rule nth_equalityI) simp_all

lemma ids_commonRefPositions:
  "map Node_id (commonRefPositions nodes) = map Node_id (commonRefNodes nodes)"
  by (simp add: commonRefPositions_eq comp_def)

lemma nodes_split:
  "set nodes = set (recommendedNodes nodes) \<union> set (commonRefNodes nodes)"
proof -
  have "\<And>n. Node_type n = recommended \<or> Node_type n = common_reference"
    using NodeType.exhaust by blast
  then show ?thesis
    unfolding recommendedNodes_def commonRefNodes_def by auto
qed

lemma ids_allNodePositions:
  "Node_id ` set (allNodePositions nodes) = Node_id ` set nodes"
proof -
  have "Node_id ` set (allNodePositions nodes) =
        set (map Node_id (recommendedPositions nodes)) \<union> set (map Node_id (commonRefPositions nodes))"
    by (simp add: allNodePositions_def image_Un)
  also have "\<dots> = Node_id ` set (recommendedNodes nodes) \<union> Node_id ` set (commonRefNodes nodes)"
    by (simp only: ids_recommendedPositions ids_commonRefPositions set_map)
  also have "\<dots> = Node_id ` set nodes"
    by (simp only: nodes_split [of nodes] image_Un)
  finally show ?thesis .
qed

lemma getNodePosition_None:
  "getNodePosition nodes i = None \<longleftrightarrow> i \<notin> Node_id ` set nodes"
  unfolding getNodePosition_def find_None_iff ids_allNodePositions [symmetric]
  by auto

lemma renderEdge_None:
  "renderEdge nodes e = None \<longleftrightarrow>
      source e \<notin> Node_id ` set nodes \<or> target e \<notin> Node_id ` set nodes"
  by (simp add: renderEdge_def getNodePosition_None [symmetric] split: option.splits)

text \<open>
  Claim C10. An edge is rendered as nothing exactly when its source or its target is the
  id of no node. The edge list of the drawing has one entry per input edge, whatever the
  nodes and edges are, and the entry of an edge with a dangling end is \<open>null\<close>.
\<close>

theorem dangling_edges_skipped:
  "(renderEdge nodes e = None \<longleftrightarrow>
      source e \<notin> Node_id ` set nodes \<or> target e \<notin> Node_id ` set nodes) \<and>
   length (fst (PaperGraph nodes edges)) = length edges \<and>
   (\<forall>k < length edges.
      source (edges ! k) \<notin> Node_id ` set nodes \<or> target (edges ! k) \<notin> Node_id ` set nodes
      \<longrightarrow> fst (PaperGraph nodes edges) ! k = None)"
  by (simp add: renderEdge_None PaperGraph_def)

theorem dangling_edges_skipped_witness:
  "renderEdge example_nodes (example_edges ! 1) = None \<and>
   fst (PaperGraph example_nodes example_edges) ! 1 = None"
proof -
  have "target (example_edges ! 1) \<notin> Node_id ` set example_nodes"
    by (simp add: example_edges_def example_nodes_def)
  moreover have "1 < length example_edges"
    by (simp add: example_edges_def)
  ultimately show ?thesis
    using dangling_edges_skipped [of example_nodes "example_edges ! 1" example_edges]
    by simp
qed
















section \<open>Properties of the chat page\<close>

lemma trim_empty_iff: "trim s = [] \<longleftrightarrow> (\<forall>c \<in> set s. is_whitespace c)"
proof
  assume "trim s = []"
  then have all: "\<forall>c \<in> set (dropWhile is_whitespace s). is_whitespace c"
    by (simp add: trim_def)
  have "dropWhile is_whitespace s = []"
  proof (rule ccontr)
    assume ne: "dropWhile is_whitespace s \<noteq> []"
    then have "\<not> is_whitespace (hd (dropWhile is_whitespace s))"
      by (rule hd_dropWhile)
    moreover have "hd (dropWhile is_whitespace s) \<in> set (dropWhile is_whitespace s)"
      using ne by (rule hd_in_set)
    ultimately show False using all by blast
  qed
  then show "\<forall>c \<in> set s. is_whitespace c"
    by simp
next
  assume "\<forall>c \<in> set s. is_whitespace c"
  then show "trim s = []"
    by (auto simp: trim_def dest: set_dropWhileD)
qed

lemma handleSend_blank:
  "trim (Chat_input (state pg)) = [] \<or> Chat_isLoading (state pg) \<Longrightarrow>
   handleSend p paperId usr pg = Returned pg"
  by (auto simp: handleSend_def)

lemma handleSend_user:
  assumes "trim (Chat_input (state pg)) \<noteq> []" and "\<not> Chat_isLoading (state pg)"
  shows "handleSend p paperId (Some u) pg =
     Awaited
       (pg \<lparr> state := (state pg)
              \<lparr> Chat_messages := Chat_messages (state pg)
                   @ [\<lparr> role = user_role, content = Chat_input (state pg) \<rparr>],
                Chat_input := [], Chat_isLoading := True \<rparr> \<rparr>)
       (pg \<lparr> state := (state pg)
              \<lparr> Chat_messages := Chat_messages (state pg)
                   @ [\<lparr> role = user_role, content = Chat_input (state pg) \<rparr>]
                   @ [\<lparr> role = assistant,
                        content = (case api_chatWithPaper p paperId (User_id u)
                                          (Chat_input (state pg)) of
                                     Inr response \<Rightarrow> answer response
                                   | Inl e \<Rightarrow> SEND_FAILED) \<rparr>],
                Chat_input := [], Chat_isLoading := False \<rparr>,
            called := called pg @ [ChatWithPaper paperId (User_id u) (Chat_input (state pg))],
            logged := (case api_chatWithPaper p paperId (User_id u) (Chat_input (state pg)) of
                         Inr response \<Rightarrow> logged pg
                       | Inl e \<Rightarrow> logged pg @ [(ascii ''Failed to send message:'', e)]) \<rparr>)"
  using assms
  by (simp add: handleSend_def call_api_def console_error_def Let_def split: sum.splits)

lemma handleSend_no_user:
  assumes "trim (Chat_input (state pg)) \<noteq> []" and "\<not> Chat_isLoading (state pg)"
  shows "handleSend p paperId None pg =
     Awaited
       (pg \<lparr> state := (state pg)
              \<lparr> Chat_messages := Chat_messages (state pg)
                   @ [\<lparr> role = user_role, content = Chat_input (state pg) \<rparr>],
                Chat_input := [], Chat_isLoading := True \<rparr> \<rparr>)
       (pg \<lparr> state := (state pg)
              \<lparr> Chat_messages := Chat_messages (state pg)
                   @ [\<lparr> role = user_role, content = Chat_input (state pg) \<rparr>]
                   @ [\<lparr> role = assistant, content = SEND_FAILED \<rparr>],
                Chat_input := [], Chat_isLoading := False \<rparr>,
            logged := logged pg @ [(ascii ''Failed to send message:'', TypeError NULL_ID_READ)] \<rparr>)"
  using assms
  by (simp add: handleSend_def console_error_def Let_def)

text \<open>
  Claim C7. When the trimmed input is not empty and the page is not loading, \<open>handleSend\<close>
  suspends at the API call: at that point the user's message is the last of the
  transcript and the client has not been called yet. When the handler has finished, the
  client has been called once, exactly one assistant message follows the user's message
  (the answer when the call resolved, the fixed failure text when it threw) and the
  loading flag is clear. An input of white space only, the empty input included, returns
  at once with the page unchanged.
\<close>

theorem handleSend_transcript:
  "(trim (Chat_input (state pg)) \<noteq> [] \<and> \<not> Chat_isLoading (state pg) \<longrightarrow>
      (\<exists>pg1 pg2 reply.
         handleSend p paperId (Some u) pg = Awaited pg1 pg2 \<and>
         Chat_messages (state pg1) =
           Chat_messages (state pg) @ [\<lparr> role = user_role, content = Chat_input (state pg) \<rparr>] \<and>
         called pg1 = called pg \<and>
         called pg2 = called pg @ [ChatWithPaper paperId (User_id u) (Chat_input (state pg))] \<and>
         Chat_messages (state pg2) =
           Chat_messages (state pg1) @ [\<lparr> role = assistant, content = reply \<rparr>] \<and>
         (\<forall>response. api_chatWithPaper p paperId (User_id u) (Chat_input (state pg)) = Inr response
            \<longrightarrow> reply = answer response) \<and>
         (\<forall>e. api_chatWithPaper p paperId (User_id u) (Chat_input (state pg)) = Inl e
            \<longrightarrow> reply = SEND_FAILED) \<and>
         \<not> Chat_isLoading (state pg2))) \<and>
   ((\<forall>c \<in> set (Chat_input (state pg)). is_whitespace c) \<longrightarrow>
      handleSend p paperId (Some u) pg = Returned pg)"
proof (intro conjI impI)
  assume a: "trim (Chat_input (state pg)) \<noteq> [] \<and> \<not> Chat_isLoading (state pg)"
  then have a1: "trim (Chat_input (state pg)) \<noteq> []" and a2: "\<not> Chat_isLoading (state pg)"
    by simp_all
  show "\<exists>pg1 pg2 reply.
         handleSend p paperId (Some u) pg = Awaited pg1 pg2 \<and>
         Chat_messages (state pg1) =
           Chat_messages (state pg) @ [\<lparr> role = user_role, content = Chat_input (state pg) \<rparr>] \<and>
         called pg1 = called pg \<and>
         called pg2 = called pg @ [ChatWithPaper paperId (User_id u) (Chat_input (state pg))] \<and>
         Chat_messages (state pg2) =
           Chat_messages (state pg1) @ [\<lparr> role = assistant, content = reply \<rparr>] \<and>
         (\<forall>response. api_chatWithPaper p paperId (User_id u) (Chat_input (state pg)) = Inr response
            \<longrightarrow> reply = answer response) \<and>
         (\<forall>e. api_chatWithPaper p paperId (User_id u) (Chat_input (state pg)) = Inl e
            \<longrightarrow> reply = SEND_FAILED) \<and>
         \<not> Chat_isLoading (state pg2)"
    unfolding handleSend_user [OF a1 a2]
    by (intro exI conjI) (rule refl, auto)
next
  assume "\<forall>c \<in> set (Chat_input (state pg)). is_whitespace c"
  then have "trim (Chat_input (state pg)) = []"
    by (simp add: trim_empty_iff)
  then show "handleSend p paperId (Some u) pg = Returned pg"
    by (simp add: handleSend_blank)
qed

theorem handleSend_transcript_witness:
  "(\<exists>pg1 pg2.
      handleSend (answering example_answer) 7 (Some example_user)
        (example_chat (ascii ''Why?'')) = Awaited pg1 pg2 \<and>
      Chat_messages (state pg2) =
        [\<lparr> role = user_role, content = ascii ''Why?'' \<rparr>,
         \<lparr> role = assistant, content = ascii ''Because.'' \<rparr>]) \<and>
   handleSend (answering example_answer) 7 (Some example_user) (example_chat (ascii ''  ''))
     = Returned (example_chat (ascii ''  ''))"
proof -
  have i: "Chat_input (state (example_chat typed)) = typed"
    "\<not> Chat_isLoading (state (example_chat typed))"
    "Chat_messages (state (example_chat typed)) = []" for typed
    by (simp_all add: example_chat_def mounted_def ChatPage_init_def)
  have t: "trim (ascii ''Why?'') \<noteq> []"
    by (simp add: trim_def ascii_def is_whitespace_def)
  have b: "\<forall>c \<in> set (ascii ''  ''). is_whitespace c"
    by (simp add: ascii_def is_whitespace_def)
  have a: "api_chatWithPaper (answering example_answer) 7 (User_id example_user) (ascii ''Why?'')
             = Inr example_answer"
    by (simp add: api_chatWithPaper_def request_def answering_def)
  have ans: "answer example_answer = ascii ''Because.''"
    by (simp add: example_answer_def)
  note w = handleSend_transcript
    [of "example_chat (ascii ''Why?'')" "answering example_answer" 7 example_user]
  note v = handleSend_transcript
    [of "example_chat (ascii ''  '')" "answering example_answer" 7 example_user]
  have pre: "trim (Chat_input (state (example_chat (ascii ''Why?'')))) \<noteq> [] \<and>
             \<not> Chat_isLoading (state (example_chat (ascii ''Why?'')))"
    using t by (simp add: i)
  from w [THEN conjunct1, THEN mp, OF pre] obtain pg1 pg2 reply where
    r: "handleSend (answering example_answer) 7 (Some example_user)
          (example_chat (ascii ''Why?'')) = Awaited pg1 pg2"
       "Chat_messages (state pg1) =
          Chat_messages (state (example_chat (ascii ''Why?'')))
          @ [\<lparr> role = user_role, content = Chat_input (state (example_chat (ascii ''Why?''))) \<rparr>]"
       "Chat_messages (state pg2) =
          Chat_messages (state pg1) @ [\<lparr> role = assistant, content = reply \<rparr>]"
       "\<forall>response. api_chatWithPaper (answering example_answer) 7 (User_id example_user)
            (Chat_input (state (example_chat (ascii ''Why?'')))) = Inr response
          \<longrightarrow> reply = answer response"
    by blast
  from r(4) a have reply: "reply = ascii ''Because.''"
    by (simp add: i ans)
  from r(2,3) reply have m: "Chat_messages (state pg2) =
        [\<lparr> role = user_role, content = ascii ''Why?'' \<rparr>,
         \<lparr> role = assistant, content = ascii ''Because.'' \<rparr>]"
    by (simp add: i)
  from v b have "handleSend (answering example_answer) 7 (Some example_user)
      (example_chat (ascii ''  '')) = Returned (example_chat (ascii ''  ''))"
    by (simp add: i)
  with r(1) m show ?thesis by blast
qed

section \<open>Properties of the recommendations page\<close>

lemma displayed_papers_append [simp]:
  "displayed_papers (xs @ ys) = displayed_papers xs @ displayed_papers ys"
  by (simp add: displayed_papers_def)

lemma displayed_papers_simps [simp]:
  "displayed_papers [] = []"
  "displayed_papers (PaperCard n paper i l # els) = paper # displayed_papers els"
  "displayed_papers (NavigationHeader # els) = displayed_papers els"
  "displayed_papers (LoadingNotice # els) = displayed_papers els"
  "displayed_papers (ErrorNotice e # els) = displayed_papers els"
  "displayed_papers (Control h b # els) = displayed_papers els"
  "displayed_papers (Graph g # els) = displayed_papers els"
  by (simp_all add: displayed_papers_def)

lemma displayed_cards:
  "displayed_papers (map (\<lambda>(index, paper). PaperCard (Suc index) paper i l) (enumerate n xs)) = xs"
  by (induction xs arbitrary: n) simp_all

lemma render_displays:
  "RecommendationsPage_render (Some u) s = Some els \<Longrightarrow>
   displayed_papers els =
     (if \<not> Recs_isLoading s \<and> \<not> truthy (Recs_error s) then take 3 (Recs_papers s) else [])"
  by (auto simp: RecommendationsPage_render_def todayPapers_def displayed_cards truthy_def
        split: option.splits)

lemma fetchRecommendations_ok:
  "api_getTodayRecommendations p (User_id u) = Inr data \<Longrightarrow>
   state (fetchRecommendations p (Some u) pg) =
     \<lparr> Recs_papers = take 3 (papers data), Recs_isLoading = False, Recs_error = None \<rparr>"
  by (simp add: fetchRecommendations_def call_api_def Let_def)

text \<open>
  Claim C9. When the today-recommendations call resolves, the page stores the first three
  papers of the answer, in the answer's order, and the cards it then renders show exactly
  these. In any state, the cards rendered show at most the first three stored papers.
\<close>

theorem recommendations_first_three:
  "(\<forall>data. api_getTodayRecommendations p (User_id u) = Inr data \<longrightarrow>
      Recs_papers (state (fetchRecommendations p (Some u) pg)) = take 3 (papers data) \<and>
      (\<exists>els. RecommendationsPage_render (Some u) (state (fetchRecommendations p (Some u) pg))
                = Some els \<and>
             displayed_papers els = take 3 (papers data))) \<and>
   (\<forall>s els. RecommendationsPage_render (Some u) s = Some els \<longrightarrow>
      displayed_papers els =
        (if \<not> Recs_isLoading s \<and> \<not> truthy (Recs_error s) then take 3 (Recs_papers s)
         else []))"
proof (intro conjI allI impI)
  fix data
  assume ok: "api_getTodayRecommendations p (User_id u) = Inr data"
  show "Recs_papers (state (fetchRecommendations p (Some u) pg)) = take 3 (papers data)"
    by (simp add: fetchRecommendations_ok [OF ok])
  obtain els where els:
    "RecommendationsPage_render (Some u) (state (fetchRecommendations p (Some u) pg)) = Some els"
    by (simp add: RecommendationsPage_render_def)
  from render_displays [OF els]
  have "displayed_papers els = take 3 (papers data)"
    by (simp add: fetchRecommendations_ok [OF ok] truthy_def)
  with els show "\<exists>els. RecommendationsPage_render (Some u)
        (state (fetchRecommendations p (Some u) pg)) = Some els \<and>
        displayed_papers els = take 3 (papers data)"
    by blast
next
  fix s els
  assume "RecommendationsPage_render (Some u) s = Some els"
  then show "displayed_papers els =
        (if \<not> Recs_isLoading s \<and> \<not> truthy (Recs_error s) then take 3 (Recs_papers s)
         else [])"
    by (rule render_displays)
qed


theorem recommendations_first_three_witness:
  "Recs_papers (state (fetchRecommendations (answering example_today) (Some example_user)
      (mounted RecommendationsPage_init))) =
     [example_paper 1, example_paper 2, example_paper 3]"
proof -
  have a: "api_getTodayRecommendations (answering example_today) (User_id example_user)
             = Inr example_today"
    by (simp add: api_getTodayRecommendations_def request_def answering_def)
  have "take 3 (papers example_today) = [example_paper 1, example_paper 2, example_paper 3]"
    by (simp add: example_today_def)
  with a show ?thesis
    using recommendations_first_three
      [of "answering example_today" example_user "mounted RecommendationsPage_init"]
    by simp
qed


section \<open>Properties of the protected pages\<close>














end
